theory Spec2Isabelle
  imports Main "HOL-Library.Sublist" "HOL-Library.AList"
begin

section \<open>Python strings\<close>

text \<open>
  A Python \<open>str\<close> is modelled as a \<open>string\<close>, a character of the model being a code
  point from U+0000 to U+00FF; strings with a code point beyond U+00FF are outside the
  model. Case mapping, digits and white space are those Python gives these code points.
\<close>

definition minusculas :: string where
  "minusculas = ''abcdefghijklmnopqrstuvwxyz''"

definition mayusculas :: string where
  "mayusculas = ''ABCDEFGHIJKLMNOPQRSTUVWXYZ''"

definition digitos :: string where
  "digitos = ''0123456789''"

text \<open>
  The lower case of a character: the ASCII capitals, and the capitals U+00C0 to U+00DE
  without the multiplication sign U+00D7, each 32 code points below its small letter.
\<close>

definition lower_char :: "char \<Rightarrow> char" where
  "lower_char c =
     (case map_of (zip mayusculas minusculas) c of
        Some l \<Rightarrow> l
      | None \<Rightarrow>
          (if 192 \<le> (of_char c :: nat) \<and> (of_char c :: nat) \<le> 222 \<and> (of_char c :: nat) \<noteq> 215
           then char_of ((of_char c :: nat) + 32) else c))"

text \<open>
  The upper case of a character, a string: the ASCII small letters and the small
  letters U+00E0 to U+00FE without the division sign U+00F7 give their capital; the sharp
  s U+00DF gives \<open>SS\<close>. The upper cases of the micro sign U+00B5 and of U+00FF are U+039C
  and U+0178, beyond the characters of the model: \<open>sin_mayuscula\<close> holds of these two,
  which the definition leaves as they are and the theorems exclude.
\<close>

definition sin_mayuscula :: "char \<Rightarrow> bool" where
  "sin_mayuscula c \<longleftrightarrow> c = CHR 0xB5 \<or> c = CHR 0xFF"

definition upper_char :: "char \<Rightarrow> string" where
  "upper_char c =
     (case map_of (zip minusculas mayusculas) c of
        Some u \<Rightarrow> [u]
      | None \<Rightarrow>
          (if 224 \<le> (of_char c :: nat) \<and> (of_char c :: nat) \<le> 254 \<and> (of_char c :: nat) \<noteq> 247
           then [char_of ((of_char c :: nat) - 32)]
           else if c = CHR 0xDF then ''SS''
           else [c]))"

text \<open>The title case differs from the upper case on the sharp s only, which gives \<open>Ss\<close>.\<close>

definition title_char :: "char \<Rightarrow> string" where
  "title_char c = (if c = CHR 0xDF then ''Ss'' else upper_char c)"

text \<open>\<open>s.upper()\<close> and \<open>s.lower()\<close>.\<close>

definition upper :: "string \<Rightarrow> string" where
  "upper s = concat (map upper_char s)"

definition lower :: "string \<Rightarrow> string" where
  "lower s = map lower_char s"

text \<open>\<open>s.capitalize()\<close>: the first character title-cased, the others lower-cased.\<close>

definition capitalize :: "string \<Rightarrow> string" where
  "capitalize s = (case s of [] \<Rightarrow> [] | c # cs \<Rightarrow> title_char c @ map lower_char cs)"

text \<open>
  The characters \<open>str.strip()\<close> removes: tab, line feed, vertical tab, form feed,
  carriage return, the four separators 0x1C to 0x1F, the space, the next-line
  character U+0085 and the no-break space U+00A0.
\<close>

definition es_espacio :: "char \<Rightarrow> bool" where
  "es_espacio c \<longleftrightarrow>
     c \<in> set [CHR 0x09, CHR 0x0A, CHR 0x0B, CHR 0x0C, CHR 0x0D,
               CHR 0x1C, CHR 0x1D, CHR 0x1E, CHR 0x1F, CHR '' '', CHR 0x85, CHR 0xA0]"

definition strip :: "string \<Rightarrow> string" where
  "strip s = rev (dropWhile es_espacio (rev (dropWhile es_espacio s)))"

text \<open>\<open>s.replace(old, '')\<close>: every occurrence of \<open>old\<close>, left to right, is dropped.\<close>

function quitar :: "string \<Rightarrow> string \<Rightarrow> string" where
  "quitar old [] = []"
| "quitar old (c # cs) =
     (if old \<noteq> [] \<and> prefix old (c # cs) then quitar old (drop (length old) (c # cs))
      else c # quitar old cs)"
  by pat_completeness auto
termination
  by (relation "measure (\<lambda>(old, s). length s)") (auto simp: neq_Nil_conv)

text \<open>\<open>str(n)\<close> of a natural number and of an integer, in decimal.\<close>

definition digito :: "nat \<Rightarrow> char" where
  "digito d = digitos ! d"

function str_nat :: "nat \<Rightarrow> string" where
  "str_nat n = (if n < 10 then [digito n] else str_nat (n div 10) @ [digito (n mod 10)])"
  by pat_completeness auto
termination
  by (relation "measure id") auto

declare str_nat.simps [simp del]

definition str_int :: "int \<Rightarrow> string" where
  "str_int i = (if i < 0 then CHR ''-'' # str_nat (nat (- i)) else str_nat (nat i))"

text \<open>
  The format \<open>{n:03d}\<close>: decimal, filled with zeros after the sign up to a total width
  of three characters; a longer number is printed whole.
\<close>

definition rellenar :: "nat \<Rightarrow> string \<Rightarrow> string" where
  "rellenar ancho s = replicate (ancho - length s) CHR ''0'' @ s"

definition formato_03d :: "int \<Rightarrow> string" where
  "formato_03d i =
     (if i < 0 then CHR ''-'' # rellenar 2 (str_nat (nat (- i))) else rellenar 3 (str_nat (nat i)))"

section \<open>Validators\<close>

text \<open>
  \<open>validate_phone\<close> is \<open>bool(match(r'^\d{10}$', phone))\<close>. \<open>match\<close> anchors at the start;
  \<open>\d{10}\<close> takes exactly ten digits (among the characters of the model the decimal
  digits are \<open>0\<close> to \<open>9\<close>); \<open>$\<close> holds at the end of the string and also just before a
  line feed that is the last character of the string.
\<close>

definition es_digito :: "char \<Rightarrow> bool" where
  "es_digito c \<longleftrightarrow> c \<in> set digitos"

definition dolar :: "string \<Rightarrow> bool" where
  "dolar resto \<longleftrightarrow> resto = [] \<or> resto = [CHR 0x0A]"

definition validate_phone :: "string \<Rightarrow> bool" where
  "validate_phone phone \<longleftrightarrow>
     length (take 10 phone) = 10 \<and> list_all es_digito (take 10 phone) \<and> dolar (drop 10 phone)"

text \<open>
  \<open>validate_email\<close> is
  \<open>bool(match(r'^[a-zA-Z0-9_.+-]+@[a-zA-Z0-9-]+\.[a-zA-Z0-9-.]+$', email))\<close>.
  No class contains the character that follows it in the pattern (\<open>@\<close>, the dot, the line
  feed), so each repetition matches the longest run of its class and nothing shorter.
\<close>

definition es_alfanum :: "char \<Rightarrow> bool" where
  "es_alfanum c \<longleftrightarrow> c \<in> set minusculas \<or> c \<in> set mayusculas \<or> c \<in> set digitos"

definition clase_local :: "char \<Rightarrow> bool" where
  "clase_local c \<longleftrightarrow> es_alfanum c \<or> c \<in> set ''_.+-''"

definition clase_dominio :: "char \<Rightarrow> bool" where
  "clase_dominio c \<longleftrightarrow> es_alfanum c \<or> c = CHR ''-''"

definition clase_final :: "char \<Rightarrow> bool" where
  "clase_final c \<longleftrightarrow> es_alfanum c \<or> c \<in> set ''-.''"

definition validate_email :: "string \<Rightarrow> bool" where
  "validate_email email \<longleftrightarrow>
     (let local = takeWhile clase_local email; r1 = dropWhile clase_local email in
      local \<noteq> [] \<and>
      (case r1 of
         [] \<Rightarrow> False
       | a # r2 \<Rightarrow>
           a = CHR ''@'' \<and>
           (let dominio = takeWhile clase_dominio r2; r3 = dropWhile clase_dominio r2 in
            dominio \<noteq> [] \<and>
            (case r3 of
               [] \<Rightarrow> False
             | p # r4 \<Rightarrow>
                 p = CHR ''.'' \<and>
                 takeWhile clase_final r4 \<noteq> [] \<and> dolar (dropWhile clase_final r4)))))"

section \<open>JSON values and the operations Python applies to them\<close>

text \<open>
  The values \<open>json.load\<close> returns: \<open>None\<close>, booleans, integers, strings, lists and
  dictionaries with string keys, a dictionary being the list of its items in order.
  Floating-point numbers are outside the model.
\<close>

datatype json =
    JNull
  | JBool bool
  | JInt int
  | JStr string
  | JList "json list"
  | JDict "(string \<times> json) list"

datatype py_error =
    IOError | ValueError | KeyError | TypeError | AttributeError | IndexError | EOFError
  | UnicodeDecodeError | RecursionError

text \<open>The truth value of \<open>if cliente:\<close>.\<close>

fun py_bool :: "json \<Rightarrow> bool" where
  "py_bool JNull = False"
| "py_bool (JBool b) = b"
| "py_bool (JInt i) = (i \<noteq> 0)"
| "py_bool (JStr s) = (s \<noteq> [])"
| "py_bool (JList xs) = (xs \<noteq> [])"
| "py_bool (JDict kvs) = (kvs \<noteq> [])"

text \<open>\<open>cliente[k]\<close> with a string \<open>k\<close>.\<close>

fun py_getitem :: "json \<Rightarrow> string \<Rightarrow> py_error + json" where
  "py_getitem (JDict kvs) k = (case map_of kvs k of None \<Rightarrow> Inl KeyError | Some v \<Rightarrow> Inr v)"
| "py_getitem _ k = Inl TypeError"

text \<open>\<open>cliente.get(k, d)\<close>: only a dictionary has the method.\<close>

fun py_get :: "json \<Rightarrow> string \<Rightarrow> json \<Rightarrow> py_error + json" where
  "py_get (JDict kvs) k d = (case map_of kvs k of None \<Rightarrow> Inr d | Some v \<Rightarrow> Inr v)"
| "py_get _ k d = Inl AttributeError"

text \<open>\<open>k in cliente\<close> with a string \<open>k\<close>.\<close>

fun py_in :: "string \<Rightarrow> json \<Rightarrow> py_error + bool" where
  "py_in k (JDict kvs) = Inr (k \<in> set (map fst kvs))"
| "py_in k (JList xs) = Inr (JStr k \<in> set xs)"
| "py_in k (JStr s) = Inr (sublist k s)"
| "py_in k _ = Inl TypeError"

text \<open>The methods \<open>lower\<close> and \<open>replace\<close> exist on strings only.\<close>

fun py_lower :: "json \<Rightarrow> py_error + string" where
  "py_lower (JStr s) = Inr (lower s)"
| "py_lower _ = Inl AttributeError"

fun py_replace_vacio :: "json \<Rightarrow> string \<Rightarrow> py_error + string" where
  "py_replace_vacio (JStr s) old = Inr (quitar old s)"
| "py_replace_vacio _ old = Inl AttributeError"

text \<open>
  \<open>repr\<close> of a string: single quotes unless the string holds a single quote and no
  double quote; the quote and the backslash are escaped, tab, line feed and carriage
  return are written \<open>\t\<close>, \<open>\n\<close>, \<open>\r\<close>, and any other character that is not printable
  (below 0x20, from 0x7F to 0xA0, and the soft hyphen 0xAD) as \<open>\xhh\<close>.
\<close>

definition hex_digito :: "nat \<Rightarrow> char" where
  "hex_digito d = ''0123456789abcdef'' ! d"

definition repr_char :: "char \<Rightarrow> char \<Rightarrow> string" where
  "repr_char comilla c =
     (if c = comilla \<or> c = CHR 0x5C then [CHR 0x5C, c]
      else if c = CHR 0x09 then [CHR 0x5C, CHR ''t'']
      else if c = CHR 0x0A then [CHR 0x5C, CHR ''n'']
      else if c = CHR 0x0D then [CHR 0x5C, CHR ''r'']
      else if (of_char c :: nat) < 32
              \<or> (127 \<le> (of_char c :: nat) \<and> (of_char c :: nat) \<le> 160)
              \<or> (of_char c :: nat) = 173
        then [CHR 0x5C, CHR ''x'', hex_digito (of_char c div 16), hex_digito (of_char c mod 16)]
      else [c])"

definition repr_str :: "string \<Rightarrow> string" where
  "repr_str s =
     (let comilla = (if CHR 0x27 \<in> set s \<and> CHR 0x22 \<notin> set s then CHR 0x22 else CHR 0x27)
      in comilla # concat (map (repr_char comilla) s) @ [comilla])"

text \<open>\<open>', '.join(xs)\<close>.\<close>

fun unir :: "string list \<Rightarrow> string" where
  "unir [] = []"
| "unir [x] = x"
| "unir (x # y # zs) = x @ '', '' @ unir (y # zs)"

fun py_repr :: "json \<Rightarrow> string" where
  "py_repr JNull = ''None''"
| "py_repr (JBool b) = (if b then ''True'' else ''False'')"
| "py_repr (JInt i) = str_int i"
| "py_repr (JStr s) = repr_str s"
| "py_repr (JList xs) = ''['' @ unir (map py_repr xs) @ '']''"
| "py_repr (JDict kvs) =
     ''{'' @ unir (map (\<lambda>kv. repr_str (fst kv) @ '': '' @ py_repr (snd kv)) kvs) @ ''}''"

text \<open>What an f-string puts for \<open>{v}\<close>: \<open>str(v)\<close>, a string being itself.\<close>

fun py_str :: "json \<Rightarrow> string" where
  "py_str (JStr s) = s"
| "py_str v = py_repr v"

text \<open>
  \<open>int(s)\<close>: white space around the number is ignored, a sign is optional, and the
  digits may be grouped by single underscores.
\<close>

fun cuerpo_entero :: "string \<Rightarrow> bool" where
  "cuerpo_entero [] = False"
| "cuerpo_entero [c] = es_digito c"
| "cuerpo_entero (c # d # r) =
     (es_digito c \<and> (if d = CHR ''_'' then cuerpo_entero r else cuerpo_entero (d # r)))"

definition valor_digitos :: "string \<Rightarrow> nat" where
  "valor_digitos s = foldl (\<lambda>a c. 10 * a + (of_char c - 48)) 0 s"

definition py_int :: "string \<Rightarrow> py_error + int" where
  "py_int s0 =
     (let s = strip s0;
          negativo = (s \<noteq> [] \<and> hd s = CHR ''-'');
          cuerpo = (if s \<noteq> [] \<and> (hd s = CHR ''-'' \<or> hd s = CHR ''+'') then tl s else s)
      in if cuerpo_entero cuerpo
         then Inr ((if negativo then - 1 else 1) *
                   int (valor_digitos (filter (\<lambda>c. c \<noteq> CHR ''_'') cuerpo)))
         else Inl ValueError)"

section \<open>The store directory\<close>

text \<open>
  The directory \<open>sky_clientes\<close> is the list of its entries in the order \<open>listdir\<close> gives
  them, each a file name with the content of the file. The directory has no
  subdirectories. A content is told by what reading it does:
  \<^item> \<open>Documento j\<close>: the text of a JSON document, kept as the value \<open>j\<close> that \<open>json.load\<close>
    returns for it (and for which \<open>json.dump\<close> writes it);
  \<^item> \<open>OtroTexto s\<close>: a text \<open>s\<close> that is not a JSON document, on which \<open>json.load\<close> raises
    \<open>JSONDecodeError\<close>;
  \<^item> \<open>NoEsTexto\<close>: bytes that are not text in the encoding of the files, on which
    reading raises \<open>UnicodeDecodeError\<close>;
  \<^item> \<open>MuyAnidado\<close>: the text of a JSON document nested deeper than the interpreter
    follows, on which \<open>json.load\<close> raises \<open>RecursionError\<close>.
\<close>

datatype contenido = Documento json | OtroTexto string | NoEsTexto | MuyAnidado

text \<open>\<open>json.load\<close> on a content.\<close>

datatype carga = Valor json | JSONDecodeError | Falla py_error

fun json_load :: "contenido \<Rightarrow> carga" where
  "json_load (Documento j) = Valor j"
| "json_load (OtroTexto s) = JSONDecodeError"
| "json_load NoEsTexto = Falla UnicodeDecodeError"
| "json_load MuyAnidado = Falla RecursionError"

type_synonym directorio = "(string \<times> contenido) list"

definition CONTADOR_FILE :: string where
  "CONTADOR_FILE = ''contador.txt''"

text \<open>\<open>path.join(CLIENTES_DIR, f"cliente_{cliente_id}.json")\<close>, relative to the directory.\<close>

definition archivo_de :: "string \<Rightarrow> string" where
  "archivo_de cliente_id = ''cliente_'' @ cliente_id @ ''.json''"

definition listdir :: "directorio \<Rightarrow> string list" where
  "listdir d = map fst d"

text \<open>
  The names the directory admits for a file. A name with a slash points into a
  subdirectory, and there is none. A name is passed to the system in UTF-8, one byte
  for a character below U+0080 and two for the others of the model, and the system
  refuses a file name over 255 bytes.
\<close>

definition bytes_utf8 :: "string \<Rightarrow> nat" where
  "bytes_utf8 s = sum_list (map (\<lambda>c. if (of_char c :: nat) < 128 then 1 else 2) s)"

definition NAME_MAX :: nat where
  "NAME_MAX = 255"

definition nombre_valido :: "string \<Rightarrow> bool" where
  "nombre_valido nombre \<longleftrightarrow> CHR ''/'' \<notin> set nombre \<and> bytes_utf8 nombre \<le> NAME_MAX"

text \<open>
  \<open>path.exists\<close>: false for a name the directory does not admit and for a name with a
  NUL character, which is no path at all.
\<close>

definition path_exists :: "directorio \<Rightarrow> string \<Rightarrow> bool" where
  "path_exists d nombre \<longleftrightarrow>
     CHR 0x00 \<notin> set nombre \<and> nombre_valido nombre \<and> map_of d nombre \<noteq> None"

text \<open>
  \<open>open(nombre, 'w')\<close> followed by the write. A name with a NUL character is refused
  with \<open>ValueError\<close>; a name the directory does not admit raises an \<open>OSError\<close>
  (\<open>FileNotFoundError\<close> for the slash, \<open>File name too long\<close> for the length), which is
  the class \<open>IOError\<close>. Otherwise the file is replaced, or created as a new entry.
\<close>

definition escribir :: "directorio \<Rightarrow> string \<Rightarrow> contenido \<Rightarrow> py_error + directorio" where
  "escribir d nombre c =
     (if CHR 0x00 \<in> set nombre then Inl ValueError
      else if \<not> nombre_valido nombre then Inl IOError
      else Inr (AList.update nombre c d))"

text \<open>\<open>remove(nombre)\<close>: \<open>FileNotFoundError\<close>, an \<open>OSError\<close>, when there is no such file.\<close>

definition remove :: "directorio \<Rightarrow> string \<Rightarrow> py_error + directorio" where
  "remove d nombre =
     (if path_exists d nombre then Inr (AList.delete nombre d) else Inl IOError)"

text \<open>
  \<open>int(f.read().strip())\<close> on a file. The text of a JSON document is a decimal integer
  exactly when the document is an integer; the text of any other document starts with a
  quote, a bracket, a brace or a letter and \<open>int\<close> refuses it. Bytes that are not text
  make \<open>read\<close> raise.
\<close>

fun leer_entero :: "contenido \<Rightarrow> py_error + int" where
  "leer_entero (Documento (JInt i)) = Inr i"
| "leer_entero (Documento _) = Inl ValueError"
| "leer_entero (OtroTexto s) = py_int s"
| "leer_entero NoEsTexto = Inl UnicodeDecodeError"
| "leer_entero MuyAnidado = Inl ValueError"

section \<open>The state of the program\<close>

text \<open>
  What \<open>print\<close> writes, one constructor for each message of the program, with the
  values its f-string interpolates (for the lines that show a record, the fields in the
  order of the line). The prompt of \<open>input\<close> and the log file
  \<open>gestion_clientes.log\<close>, which is outside the store, are not recorded.
\<close>

datatype salida =
    MsgNombreVacio
  | MsgApellidoVacio
  | MsgTipoInvalido
  | MsgContactoInvalido
  | MsgClienteCreado string string
  | MsgErrorCrear py_error
  | MsgGuardado string
  | MsgErrorGuardar py_error
  | MsgOpcionInvalida
  | MsgOpcionNoValida
  | MsgNoEncontrados
  | MsgMultiples
  | MsgMultiplesEliminar
  | MsgServicioVacio
  | MsgServicioAgregado string string json json
  | MsgEliminado string json
  | MsgErrorEliminar py_error
  | MsgClienteNoEncontrado
  | MsgNoHayClientes
  | LineaCandidato string json
  | LineaDetalle string "json list"
  | LineaResumen string "json list"

text \<open>
  The store directory, the global counter, the global dictionary \<open>clientes\<close> (the items
  in insertion order), the lines still to be read by \<open>input\<close>, what has been printed,
  and the two readings of the clock: \<open>strftime('%Y%m%d')\<close> and
  \<open>strftime('%Y-%m-%d %H:%M:%S')\<close> of \<open>datetime.now()\<close>.
\<close>

record mundo =
  archivos :: directorio
  CONTADOR_CLIENTE :: int
  clientes :: "(string \<times> json) list"
  entrada :: "string list"
  impreso :: "salida list"
  fecha_hoy :: string
  fecha_hora :: string

text \<open>
  A statement runs in a state and ends in a state, with a value or with the exception
  it raised.
\<close>

type_synonym 'a resultado = "(py_error + 'a) \<times> mundo"

definition ligar ::
  "(mundo \<Rightarrow> 'a resultado) \<Rightarrow> ('a \<Rightarrow> mundo \<Rightarrow> 'b resultado) \<Rightarrow> mundo \<Rightarrow> 'b resultado" where
  "ligar m f w = (case m w of (Inl e, w') \<Rightarrow> (Inl e, w') | (Inr x, w') \<Rightarrow> f x w')"

definition devolver :: "'a \<Rightarrow> mundo \<Rightarrow> 'a resultado" where
  "devolver x w = (Inr x, w)"

text \<open>A computation that reads the state only: its value, or the exception.\<close>

definition evaluar :: "(mundo \<Rightarrow> py_error + 'a) \<Rightarrow> mundo \<Rightarrow> 'a resultado" where
  "evaluar f w = (f w, w)"

definition py_print :: "salida \<Rightarrow> mundo \<Rightarrow> unit resultado" where
  "py_print s w = (Inr (), w\<lparr>impreso := impreso w @ [s]\<rparr>)"

text \<open>\<open>input(...)\<close>: the next line, \<open>EOFError\<close> when there is none.\<close>

definition py_input :: "mundo \<Rightarrow> string resultado" where
  "py_input w =
     (case entrada w of [] \<Rightarrow> (Inl EOFError, w) | l # ls \<Rightarrow> (Inr l, w\<lparr>entrada := ls\<rparr>))"

section \<open>Identifier generators\<close>

text \<open>
  The loop of \<open>generate_unique_id\<close>: while the record file of \<open>unique_id\<close> exists, the
  next candidate is the base with the counter as suffix. The loop ends because the
  directory is finite and the candidates are pairwise distinct: the suffixes from
  \<open>counter\<close> on whose record file exists become fewer at each turn.
\<close>

definition sufijos_usados :: "directorio \<Rightarrow> string \<Rightarrow> nat \<Rightarrow> nat set" where
  "sufijos_usados d base_id counter =
     {k. counter \<le> k \<and> path_exists d (archivo_de (base_id @ ''_'' @ str_nat k))}"

function bucle_id :: "directorio \<Rightarrow> string \<Rightarrow> nat \<Rightarrow> string \<Rightarrow> string" where
  "bucle_id d base_id counter unique_id =
     (if path_exists d (archivo_de unique_id)
      then bucle_id d base_id (counter + 1) (base_id @ ''_'' @ str_nat counter)
      else unique_id)"
  by pat_completeness auto

text \<open>
  \<open>generate_unique_id\<close>. \<open>nombre[0]\<close> raises \<open>IndexError\<close> on an empty name; the family
  name gives its first character only when it is not empty.
\<close>

definition generate_unique_id :: "string \<Rightarrow> string \<Rightarrow> mundo \<Rightarrow> py_error + string" where
  "generate_unique_id nombre apellido w =
     (case nombre of
        [] \<Rightarrow> Inl IndexError
      | n # _ \<Rightarrow>
          (let iniciales = upper (n # (if apellido \<noteq> [] then [hd apellido] else []));
               fecha = fecha_hoy w;
               base_id = iniciales @ ''_'' @ fecha
           in Inr (bucle_id (archivos w) base_id 1 base_id)))"

text \<open>
  \<open>generate_cliente_number\<close>: the counter is incremented first, then written to the
  counter file with an unguarded \<open>open\<close>, then formatted. The text \<open>str(n)\<close> written to the
  file is the JSON document of the integer \<open>n\<close>.
\<close>

definition generate_cliente_number :: "mundo \<Rightarrow> string resultado" where
  "generate_cliente_number w =
     (let n = CONTADOR_CLIENTE w + 1;
          w1 = w\<lparr>CONTADOR_CLIENTE := n\<rparr>
      in case escribir (archivos w1) CONTADOR_FILE (Documento (JInt n)) of
           Inl e \<Rightarrow> (Inl e, w1)
         | Inr d \<Rightarrow> (Inr (''C'' @ formato_03d n), w1\<lparr>archivos := d\<rparr>))"

section \<open>Record store\<close>

text \<open>
  \<open>guardar_cliente\<close>: an \<open>IOError\<close> of the write is caught and reported, the function
  returning normally; any other exception of \<open>open\<close> passes to the caller.
\<close>

definition guardar_cliente :: "string \<Rightarrow> json \<Rightarrow> mundo \<Rightarrow> unit resultado" where
  "guardar_cliente cliente_id cliente_data w =
     (case escribir (archivos w) (archivo_de cliente_id) (Documento cliente_data) of
        Inr d \<Rightarrow> py_print (MsgGuardado cliente_id) (w\<lparr>archivos := d\<rparr>)
      | Inl IOError \<Rightarrow> py_print (MsgErrorGuardar IOError) w
      | Inl e \<Rightarrow> (Inl e, w))"

text \<open>
  \<open>cargar_cliente\<close>: the value of the document, and \<open>None\<close> (the same value as a JSON
  \<open>null\<close>) when the file does not exist, where the function ends without a \<open>return\<close>,
  and when \<open>json.load\<close> raises \<open>JSONDecodeError\<close>, which the \<open>except\<close> catches with
  \<open>IOError\<close>. Any other exception of \<open>json.load\<close> passes to the caller.
\<close>

definition cargar_cliente :: "string \<Rightarrow> mundo \<Rightarrow> py_error + json" where
  "cargar_cliente cliente_id w =
     (let archivo = archivo_de cliente_id
      in if path_exists (archivos w) archivo
         then (case map_of (archivos w) archivo of
                 None \<Rightarrow> Inr JNull
               | Some c \<Rightarrow>
                   (case json_load c of
                      Valor j \<Rightarrow> Inr j
                    | JSONDecodeError \<Rightarrow> Inr JNull
                    | Falla e \<Rightarrow> Inl e))
         else Inr JNull)"

section \<open>Search\<close>

text \<open>The three conditions of \<open>buscar_clientes\<close>, each evaluated only when its criterion
  is the selected one.\<close>

definition coincide_numero :: "json \<Rightarrow> string \<Rightarrow> py_error + bool" where
  "coincide_numero cliente valor =
     (case py_get cliente ''numero_cliente'' (JStr []) of
        Inl e \<Rightarrow> Inl e
      | Inr v \<Rightarrow> (case py_lower v of Inl e \<Rightarrow> Inl e | Inr s \<Rightarrow> Inr (s = lower valor)))"

definition coincide_nombre :: "json \<Rightarrow> string \<Rightarrow> py_error + bool" where
  "coincide_nombre cliente valor =
     (case py_getitem cliente ''nombre'' of
        Inl e \<Rightarrow> Inl e
      | Inr n \<Rightarrow>
          (case py_getitem cliente ''apellido'' of
             Inl e \<Rightarrow> Inl e
           | Inr a \<Rightarrow> Inr (sublist (lower valor) (lower (py_str n @ '' '' @ py_str a)))))"

text \<open>The \<open>if\<close>/\<open>elif\<close>/\<open>elif\<close> chain: whether the pair is appended.\<close>

definition coincide :: "string \<Rightarrow> string \<Rightarrow> string \<Rightarrow> json \<Rightarrow> py_error + bool" where
  "coincide criterio valor cliente_id cliente =
     (case (if criterio = ''numero'' then coincide_numero cliente valor else Inr False) of
        Inl e \<Rightarrow> Inl e
      | Inr True \<Rightarrow> Inr True
      | Inr False \<Rightarrow>
          (if criterio = ''id'' \<and> cliente_id = valor then Inr True
           else if criterio = ''nombre'' then coincide_nombre cliente valor
           else Inr False))"

definition es_archivo_cliente :: "string \<Rightarrow> bool" where
  "es_archivo_cliente archivo \<longleftrightarrow> prefix ''cliente_'' archivo \<and> suffix ''.json'' archivo"

definition id_de_archivo :: "string \<Rightarrow> string" where
  "id_de_archivo archivo = quitar ''.json'' (quitar ''cliente_'' archivo)"

text \<open>The loop of \<open>buscar_clientes\<close> over the listing, with \<open>resultados\<close> so far.\<close>

fun bucle_buscar ::
  "string \<Rightarrow> string \<Rightarrow> mundo \<Rightarrow> string list \<Rightarrow> (string \<times> json) list \<Rightarrow>
     py_error + (string \<times> json) list" where
  "bucle_buscar criterio valor w [] resultados = Inr resultados"
| "bucle_buscar criterio valor w (archivo # resto) resultados =
     (if es_archivo_cliente archivo then
        (let cliente_id = id_de_archivo archivo
         in case cargar_cliente cliente_id w of
              Inl e \<Rightarrow> Inl e
            | Inr cliente \<Rightarrow>
                if py_bool cliente then
                  (case coincide criterio valor cliente_id cliente of
                     Inl e \<Rightarrow> Inl e
                   | Inr si \<Rightarrow>
                       bucle_buscar criterio valor w resto
                         (if si then resultados @ [(cliente_id, cliente)] else resultados))
                else bucle_buscar criterio valor w resto resultados)
      else bucle_buscar criterio valor w resto resultados)"

definition buscar_clientes ::
  "string \<Rightarrow> string \<Rightarrow> mundo \<Rightarrow> py_error + (string \<times> json) list" where
  "buscar_clientes criterio valor w = bucle_buscar criterio valor w (listdir (archivos w)) []"

section \<open>Operations\<close>

text \<open>
  \<open>crear_cliente\<close>. The body of the \<open>try\<close>; every \<open>return\<close> of the source ends the chain.
  The identifier is generated before the type is read.
\<close>

definition crear_cuerpo :: "mundo \<Rightarrow> unit resultado" where
  "crear_cuerpo =
     ligar py_input (\<lambda>l1.
       let nombre = strip l1 in
       if nombre = [] then py_print MsgNombreVacio
       else ligar py_input (\<lambda>l2.
         let apellido = strip l2 in
         if apellido = [] then py_print MsgApellidoVacio
         else ligar (evaluar (generate_unique_id nombre apellido)) (\<lambda>cliente_id.
           ligar py_input (\<lambda>l3.
             let tipo = capitalize (strip l3) in
             if tipo \<notin> set [''Persona'', ''Negocio''] then py_print MsgTipoInvalido
             else ligar py_input (\<lambda>l4.
               let contacto = strip l4 in
               if \<not> validate_phone contacto \<and> \<not> validate_email contacto
               then py_print MsgContactoInvalido
               else ligar generate_cliente_number (\<lambda>numero_cliente.
                 ligar (\<lambda>w.
                   let registro = JDict
                         [(''nombre'', JStr nombre),
                          (''apellido'', JStr apellido),
                          (''tipo'', JStr tipo),
                          (''contacto'', JStr contacto),
                          (''servicios'', JList []),
                          (''fecha_registro'', JStr (fecha_hora w)),
                          (''numero_cliente'', JStr numero_cliente)]
                   in (Inr registro, w\<lparr>clientes := AList.update cliente_id registro (clientes w)\<rparr>))
                 (\<lambda>registro.
                   ligar (guardar_cliente cliente_id registro) (\<lambda>_.
                     py_print (MsgClienteCreado cliente_id numero_cliente)))))))))"

text \<open>\<open>except Exception\<close>: the exception is reported and the function returns.\<close>

definition crear_cliente :: "mundo \<Rightarrow> unit resultado" where
  "crear_cliente w =
     (case crear_cuerpo w of
        (Inl e, w') \<Rightarrow> py_print (MsgErrorCrear e) w'
      | (Inr u, w') \<Rightarrow> (Inr u, w'))"

text \<open>
  The menu of the three search operations: \<open>1\<close> is the customer number, \<open>2\<close> the
  identifier, \<open>3\<close> the name; anything else is refused.
\<close>

definition criterio_de :: "string \<Rightarrow> string option" where
  "criterio_de opcion =
     (if opcion = ''1'' then Some ''numero''
      else if opcion = ''2'' then Some ''id''
      else if opcion = ''3'' then Some ''nombre''
      else None)"

text \<open>The fields an f-string reads from a record, left to right, up to the first that
  raises.\<close>

fun obtener_campos :: "json \<Rightarrow> string list \<Rightarrow> py_error + json list" where
  "obtener_campos cliente [] = Inr []"
| "obtener_campos cliente (k # ks) =
     (case py_getitem cliente k of
        Inl e \<Rightarrow> Inl e
      | Inr v \<Rightarrow>
          (case obtener_campos cliente ks of Inl e \<Rightarrow> Inl e | Inr vs \<Rightarrow> Inr (v # vs)))"

definition campos_detalle :: "string list" where
  "campos_detalle =
     [''numero_cliente'', ''nombre'', ''apellido'', ''tipo'', ''contacto'', ''servicios'',
      ''fecha_registro'']"

definition campos_resumen :: "string list" where
  "campos_resumen =
     [''numero_cliente'', ''nombre'', ''apellido'', ''tipo'', ''contacto'', ''servicios'']"

fun imprimir_detalles :: "(string \<times> json) list \<Rightarrow> mundo \<Rightarrow> unit resultado" where
  "imprimir_detalles [] w = (Inr (), w)"
| "imprimir_detalles ((cliente_id, cliente) # resto) w =
     (case obtener_campos cliente campos_detalle of
        Inl e \<Rightarrow> (Inl e, w)
      | Inr vs \<Rightarrow>
          imprimir_detalles resto (w\<lparr>impreso := impreso w @ [LineaDetalle cliente_id vs]\<rparr>))"

fun imprimir_candidatos :: "(string \<times> json) list \<Rightarrow> mundo \<Rightarrow> unit resultado" where
  "imprimir_candidatos [] w = (Inr (), w)"
| "imprimir_candidatos ((cliente_id, cliente) # resto) w =
     (case py_getitem cliente ''numero_cliente'' of
        Inl e \<Rightarrow> (Inl e, w)
      | Inr v \<Rightarrow>
          imprimir_candidatos resto (w\<lparr>impreso := impreso w @ [LineaCandidato cliente_id v]\<rparr>))"

definition leer_cliente :: "mundo \<Rightarrow> unit resultado" where
  "leer_cliente =
     ligar py_input (\<lambda>l1.
       case criterio_de (strip l1) of
         None \<Rightarrow> py_print MsgOpcionInvalida
       | Some criterio \<Rightarrow>
           ligar py_input (\<lambda>l2.
             ligar (evaluar (buscar_clientes criterio (strip l2))) (\<lambda>clientes_encontrados.
               if clientes_encontrados \<noteq> [] then imprimir_detalles clientes_encontrados
               else py_print MsgNoEncontrados)))"

text \<open>
  \<open>cliente["servicios"].append(servicio)\<close>: the list held by the record grows at its
  end; a value that is not a list has no \<open>append\<close>.
\<close>

fun agregar_servicio :: "json \<Rightarrow> string \<Rightarrow> py_error + json" where
  "agregar_servicio (JDict kvs) servicio =
     (case map_of kvs ''servicios'' of
        None \<Rightarrow> Inl KeyError
      | Some (JList xs) \<Rightarrow>
          Inr (JDict (AList.update ''servicios'' (JList (xs @ [JStr servicio])) kvs))
      | Some _ \<Rightarrow> Inl AttributeError)"
| "agregar_servicio _ servicio = Inl TypeError"

definition modificar_cliente :: "mundo \<Rightarrow> unit resultado" where
  "modificar_cliente =
     ligar py_input (\<lambda>l1.
       case criterio_de (strip l1) of
         None \<Rightarrow> py_print MsgOpcionNoValida
       | Some criterio \<Rightarrow>
           ligar py_input (\<lambda>l2.
             ligar (evaluar (buscar_clientes criterio (strip l2))) (\<lambda>clientes_encontrados.
               case clientes_encontrados of
                 [] \<Rightarrow> py_print MsgNoEncontrados
               | [(cliente_id, cliente)] \<Rightarrow>
                   ligar py_input (\<lambda>l3.
                     let servicio = strip l3 in
                     if servicio = [] then py_print MsgServicioVacio
                     else ligar (evaluar (\<lambda>_. agregar_servicio cliente servicio)) (\<lambda>cliente'.
                       ligar (guardar_cliente cliente_id cliente') (\<lambda>_.
                         ligar (evaluar (\<lambda>_. obtener_campos cliente' [''nombre'', ''numero_cliente'']))
                           (\<lambda>vs. py_print
                                   (MsgServicioAgregado servicio cliente_id (vs ! 0) (vs ! 1))))))
               | _ \<Rightarrow>
                   ligar (py_print MsgMultiples) (\<lambda>_.
                     imprimir_candidatos clientes_encontrados))))"

text \<open>
  \<open>eliminar_cliente\<close>. Inside the \<open>try\<close>, an \<open>OSError\<close> of \<open>remove\<close> is caught and reported;
  the exception the last \<open>print\<close> may raise reading the customer number is not an
  \<open>OSError\<close> and passes to the caller, after the file and the cached copy are gone.
\<close>

definition eliminar_cliente :: "mundo \<Rightarrow> unit resultado" where
  "eliminar_cliente =
     ligar py_input (\<lambda>l1.
       case criterio_de (strip l1) of
         None \<Rightarrow> py_print MsgOpcionNoValida
       | Some criterio \<Rightarrow>
           ligar py_input (\<lambda>l2.
             ligar (evaluar (buscar_clientes criterio (strip l2))) (\<lambda>clientes_encontrados.
               case clientes_encontrados of
                 [] \<Rightarrow> py_print MsgNoEncontrados
               | [(cliente_id, cliente)] \<Rightarrow>
                   (\<lambda>w.
                      let archivo = archivo_de cliente_id in
                      if path_exists (archivos w) archivo then
                        (case remove (archivos w) archivo of
                           Inl e \<Rightarrow> py_print (MsgErrorEliminar e) w
                         | Inr d \<Rightarrow>
                             (let w1 = w\<lparr>archivos := d\<rparr>;
                                  w2 = (if cliente_id \<in> set (map fst (clientes w1))
                                        then w1\<lparr>clientes := AList.delete cliente_id (clientes w1)\<rparr>
                                        else w1)
                              in case py_getitem cliente ''numero_cliente'' of
                                   Inl e \<Rightarrow> (Inl e, w2)
                                 | Inr v \<Rightarrow> py_print (MsgEliminado cliente_id v) w2))
                      else py_print MsgClienteNoEncontrado w)
               | _ \<Rightarrow>
                   ligar (py_print MsgMultiplesEliminar) (\<lambda>_.
                     imprimir_candidatos clientes_encontrados))))"

text \<open>\<open>listar_clientes\<close>: the test is on the whole listing of the directory.\<close>

fun bucle_listar :: "string list \<Rightarrow> mundo \<Rightarrow> unit resultado" where
  "bucle_listar [] w = (Inr (), w)"
| "bucle_listar (archivo # resto) w =
     (if es_archivo_cliente archivo then
        (let cliente_id = id_de_archivo archivo
         in case cargar_cliente cliente_id w of
              Inl e \<Rightarrow> (Inl e, w)
            | Inr cliente \<Rightarrow>
                if py_bool cliente then
                  (case obtener_campos cliente campos_resumen of
                     Inl e \<Rightarrow> (Inl e, w)
                   | Inr vs \<Rightarrow>
                       bucle_listar resto
                         (w\<lparr>impreso := impreso w @ [LineaResumen cliente_id vs]\<rparr>))
                else bucle_listar resto w)
      else bucle_listar resto w)"

definition listar_clientes :: "mundo \<Rightarrow> unit resultado" where
  "listar_clientes w =
     (if listdir (archivos w) = [] then py_print MsgNoHayClientes w
      else bucle_listar (listdir (archivos w)) w)"

section \<open>Start of the program\<close>

text \<open>
  The module-level code that loads the counter from the counter file or, when there is
  none, takes the largest customer number of the records and creates the file.
\<close>

fun bucle_max :: "string list \<Rightarrow> mundo \<Rightarrow> int \<Rightarrow> py_error + int" where
  "bucle_max [] w max_num = Inr max_num"
| "bucle_max (f # resto) w max_num =
     (if es_archivo_cliente f then
        (case cargar_cliente (id_de_archivo f) w of
           Inl e \<Rightarrow> Inl e
         | Inr cliente \<Rightarrow>
             (case (if py_bool cliente then py_in ''numero_cliente'' cliente else Inr False) of
                Inl e \<Rightarrow> Inl e
              | Inr False \<Rightarrow> bucle_max resto w max_num
              | Inr True \<Rightarrow>
                  (case py_getitem cliente ''numero_cliente'' of
                     Inl e \<Rightarrow> Inl e
                   | Inr v \<Rightarrow>
                       (case py_replace_vacio v ''C'' of
                          Inl e \<Rightarrow> Inl e
                        | Inr t \<Rightarrow>
                            (case py_int t of
                               Inl e \<Rightarrow> Inl e
                             | Inr num \<Rightarrow> bucle_max resto w (max max_num num))))))
      else bucle_max resto w max_num)"

definition inicializar :: "mundo \<Rightarrow> unit resultado" where
  "inicializar w =
     (if path_exists (archivos w) CONTADOR_FILE then
        (case map_of (archivos w) CONTADOR_FILE of
           None \<Rightarrow> (Inl IOError, w)
         | Some c \<Rightarrow>
             (case leer_entero c of
                Inl e \<Rightarrow> (Inl e, w)
              | Inr i \<Rightarrow> (Inr (), w\<lparr>CONTADOR_CLIENTE := i\<rparr>)))
      else
        (case bucle_max (listdir (archivos w)) w 0 of
           Inl e \<Rightarrow> (Inl e, w)
         | Inr max_num \<Rightarrow>
             (let w1 = w\<lparr>CONTADOR_CLIENTE := max_num\<rparr>
              in case escribir (archivos w1) CONTADOR_FILE (Documento (JInt max_num)) of
                   Inl e \<Rightarrow> (Inl e, w1)
                 | Inr d \<Rightarrow> (Inr (), w1\<lparr>archivos := d\<rparr>))))"

section \<open>Notions used to state the properties\<close>


text \<open>A record as \<open>crear_cliente\<close> builds it, with two services added, and two states
  of the program: a fresh store, and a store holding that record.\<close>

definition registro_ejemplo :: json where
  "registro_ejemplo =
     JDict [(''nombre'', JStr ''Ana''),
            (''apellido'', JStr ''Bello''),
            (''tipo'', JStr ''Persona''),
            (''contacto'', JStr ''5512345678''),
            (''servicios'', JList [JStr ''tv'', JStr ''internet'']),
            (''fecha_registro'', JStr ''2025-06-02 10:00:00''),
            (''numero_cliente'', JStr ''C001'')]"

definition mundo_nuevo :: mundo where
  "mundo_nuevo =
     \<lparr>archivos = [(''contador.txt'', Documento (JInt 0))],
      CONTADOR_CLIENTE = 0,
      clientes = [],
      entrada = [],
      impreso = [],
      fecha_hoy = ''20250602'',
      fecha_hora = ''2025-06-02 10:00:00''\<rparr>"

definition mundo_ejemplo :: mundo where
  "mundo_ejemplo =
     \<lparr>archivos = [(''contador.txt'', Documento (JInt 1)),
                  (''cliente_AB_20250602.json'', Documento registro_ejemplo)],
      CONTADOR_CLIENTE = 1,
      clientes = [],
      entrada = [],
      impreso = [],
      fecha_hoy = ''20250602'',
      fecha_hora = ''2025-06-02 10:00:00''\<rparr>"

text \<open>The state of the spec's scenario of a refused contact: the four lines typed.\<close>

definition mundo_contacto_malo :: mundo where
  "mundo_contacto_malo =
     mundo_ejemplo\<lparr>entrada := [''Juan'', ''Perez'', ''persona'', ''notanemail'']\<rparr>"

text \<open>
  What the printing loops add to the output and how they end, read off the list they
  run over: the lines up to the first record whose fields cannot be read, and the
  exception raised there.
\<close>

fun lineas_candidatos :: "(string \<times> json) list \<Rightarrow> salida list" where
  "lineas_candidatos [] = []"
| "lineas_candidatos ((cliente_id, cliente) # resto) =
     (case py_getitem cliente ''numero_cliente'' of
        Inl e \<Rightarrow> []
      | Inr v \<Rightarrow> LineaCandidato cliente_id v # lineas_candidatos resto)"

fun fin_candidatos :: "(string \<times> json) list \<Rightarrow> py_error + unit" where
  "fin_candidatos [] = Inr ()"
| "fin_candidatos ((cliente_id, cliente) # resto) =
     (case py_getitem cliente ''numero_cliente'' of
        Inl e \<Rightarrow> Inl e
      | Inr v \<Rightarrow> fin_candidatos resto)"

fun lineas_detalle :: "(string \<times> json) list \<Rightarrow> salida list" where
  "lineas_detalle [] = []"
| "lineas_detalle ((cliente_id, cliente) # resto) =
     (case obtener_campos cliente campos_detalle of
        Inl e \<Rightarrow> []
      | Inr vs \<Rightarrow> LineaDetalle cliente_id vs # lineas_detalle resto)"

fun fin_detalle :: "(string \<times> json) list \<Rightarrow> py_error + unit" where
  "fin_detalle [] = Inr ()"
| "fin_detalle ((cliente_id, cliente) # resto) =
     (case obtener_campos cliente campos_detalle of
        Inl e \<Rightarrow> Inl e
      | Inr vs \<Rightarrow> fin_detalle resto)"

text \<open>
  The loads of a listing raise nothing: for each record file of the listing,
  \<open>cargar_cliente\<close> of the identifier derived from its name returns.
\<close>

definition carga_bien :: "string list \<Rightarrow> mundo \<Rightarrow> bool" where
  "carga_bien fs w \<longleftrightarrow>
     list_all (\<lambda>archivo. case cargar_cliente (id_de_archivo archivo) w of
                           Inl e \<Rightarrow> False | Inr j \<Rightarrow> True)
       (filter es_archivo_cliente fs)"

text \<open>What \<open>cargar_cliente\<close> returns, \<open>None\<close> standing for a load that raises.\<close>

definition valor_cargado :: "string \<Rightarrow> mundo \<Rightarrow> json" where
  "valor_cargado cliente_id w =
     (case cargar_cliente cliente_id w of Inl e \<Rightarrow> JNull | Inr j \<Rightarrow> j)"

text \<open>The records \<open>listar_clientes\<close> and \<open>buscar_clientes\<close> reach: for each record file of
  a listing, in order, the identifier derived from its name with what
  \<open>cargar_cliente\<close> returns for it, when that value is true.\<close>

definition cargados_de :: "string list \<Rightarrow> mundo \<Rightarrow> (string \<times> json) list" where
  "cargados_de fs w =
     filter (\<lambda>(cliente_id, cliente). py_bool cliente)
       (map (\<lambda>archivo. (id_de_archivo archivo, valor_cargado (id_de_archivo archivo) w))
          (filter es_archivo_cliente fs))"

definition cargados :: "mundo \<Rightarrow> (string \<times> json) list" where
  "cargados w = cargados_de (listdir (archivos w)) w"

text \<open>What the loop of \<open>listar_clientes\<close> prints and how it ends, read off the listing:
  the summary lines up to the first load that raises or the first record whose fields
  cannot be read.\<close>

fun lineas_listar :: "string list \<Rightarrow> mundo \<Rightarrow> salida list" where
  "lineas_listar [] w = []"
| "lineas_listar (archivo # resto) w =
     (if es_archivo_cliente archivo then
        (case cargar_cliente (id_de_archivo archivo) w of
           Inl e \<Rightarrow> []
         | Inr cliente \<Rightarrow>
             if py_bool cliente then
               (case obtener_campos cliente campos_resumen of
                  Inl e \<Rightarrow> []
                | Inr vs \<Rightarrow> LineaResumen (id_de_archivo archivo) vs # lineas_listar resto w)
             else lineas_listar resto w)
      else lineas_listar resto w)"

fun fin_listar :: "string list \<Rightarrow> mundo \<Rightarrow> py_error + unit" where
  "fin_listar [] w = Inr ()"
| "fin_listar (archivo # resto) w =
     (if es_archivo_cliente archivo then
        (case cargar_cliente (id_de_archivo archivo) w of
           Inl e \<Rightarrow> Inl e
         | Inr cliente \<Rightarrow>
             if py_bool cliente then
               (case obtener_campos cliente campos_resumen of
                  Inl e \<Rightarrow> Inl e
                | Inr vs \<Rightarrow> fin_listar resto w)
             else fin_listar resto w)
      else fin_listar resto w)"

fun lineas_resumen :: "(string \<times> json) list \<Rightarrow> salida list" where
  "lineas_resumen [] = []"
| "lineas_resumen ((cliente_id, cliente) # resto) =
     (case obtener_campos cliente campos_resumen of
        Inl e \<Rightarrow> []
      | Inr vs \<Rightarrow> LineaResumen cliente_id vs # lineas_resumen resto)"

fun fin_resumen :: "(string \<times> json) list \<Rightarrow> py_error + unit" where
  "fin_resumen [] = Inr ()"
| "fin_resumen ((cliente_id, cliente) # resto) =
     (case obtener_campos cliente campos_resumen of
        Inl e \<Rightarrow> Inl e
      | Inr vs \<Rightarrow> fin_resumen resto)"

text \<open>The search as a filter of the records reached: the pairs on which the condition
  of the criterion holds, or the first exception a condition raises.\<close>

fun filtrar :: "string \<Rightarrow> string \<Rightarrow> (string \<times> json) list \<Rightarrow> py_error + (string \<times> json) list" where
  "filtrar criterio valor [] = Inr []"
| "filtrar criterio valor ((cliente_id, cliente) # resto) =
     (case coincide criterio valor cliente_id cliente of
        Inl e \<Rightarrow> Inl e
      | Inr si \<Rightarrow>
          (case filtrar criterio valor resto of
             Inl e \<Rightarrow> Inl e
           | Inr rs \<Rightarrow> Inr (if si then (cliente_id, cliente) # rs else rs)))"







text \<open>A store with one record file, whose record has no given name.\<close>

definition mundo_incompleto :: mundo where
  "mundo_incompleto =
     mundo_nuevo\<lparr>archivos :=
       [(''contador.txt'', Documento (JInt 1)),
        (''cliente_AB_20250602.json'', Documento (JDict [(''apellido'', JStr ''Bello'')]))]\<rparr>"


text \<open>The store with the incomplete record before an update by identifier.\<close>

definition mundo_modificar_incompleto :: mundo where
  "mundo_modificar_incompleto =
     mundo_incompleto\<lparr>entrada := [''2'', ''AB_20250602'', ''tv'']\<rparr>"

text \<open>The store of the example with a second record file that is not JSON.\<close>

definition mundo_corrupto :: mundo where
  "mundo_corrupto =
     mundo_ejemplo\<lparr>archivos :=
       archivos mundo_ejemplo @ [(''cliente_ZZ_20250602.json'', OtroTexto ''{'')]\<rparr>"

text \<open>The store of the example before a deletion by identifier and before an update by
  name, the record being also in the dictionary in memory.\<close>

definition mundo_borrar :: mundo where
  "mundo_borrar =
     mundo_corrupto\<lparr>clientes := [(''AB_20250602'', registro_ejemplo)],
                     entrada := [''2'', ''AB_20250602'']\<rparr>"

definition mundo_modificar :: mundo where
  "mundo_modificar =
     mundo_corrupto\<lparr>clientes := [(''AB_20250602'', registro_ejemplo)],
                     entrada := [''3'', ''ana'', '' telefonia '']\<rparr>"

text \<open>
  A client record: a dictionary that holds a string under each of the six keys of the
  text fields and a list of strings under \<open>servicios\<close>.
\<close>

fun es_texto :: "json option \<Rightarrow> bool" where
  "es_texto (Some (JStr s)) = True"
| "es_texto _ = False"

fun es_json_texto :: "json \<Rightarrow> bool" where
  "es_json_texto (JStr s) = True"
| "es_json_texto _ = False"

fun es_lista_de_textos :: "json option \<Rightarrow> bool" where
  "es_lista_de_textos (Some (JList xs)) = list_all es_json_texto xs"
| "es_lista_de_textos _ = False"

fun es_cliente :: "json \<Rightarrow> bool" where
  "es_cliente (JDict kvs) =
     (list_all (\<lambda>k. es_texto (map_of kvs k))
        [''nombre'', ''apellido'', ''tipo'', ''contacto'', ''fecha_registro'', ''numero_cliente'']
      \<and> es_lista_de_textos (map_of kvs ''servicios''))"
| "es_cliente _ = False"

text \<open>An identifier of 243 characters: its record file name has 256.\<close>

definition id_largo :: string where
  "id_largo = replicate 243 CHR ''A''"


text \<open>The value a record holds under a key, \<open>None\<close> when it has none.\<close>

definition campo :: "json \<Rightarrow> string \<Rightarrow> json" where
  "campo cliente k = (case py_getitem cliente k of Inl e \<Rightarrow> JNull | Inr v \<Rightarrow> v)"

text \<open>
  The upper case of a code point up to U+00FF as the Unicode character table gives it,
  by code point: a small letter from U+0061 to U+007A, or from U+00E0 to U+00FE apart
  from the division sign U+00F7, has its capital 32 code points below; the sharp s
  U+00DF has the two letters \<open>SS\<close>; every other code point, the two of \<open>sin_mayuscula\<close>
  apart, is its own upper case.
\<close>

definition mayuscula_unicode :: "char \<Rightarrow> string" where
  "mayuscula_unicode c =
     (if (97 \<le> (of_char c :: nat) \<and> (of_char c :: nat) \<le> 122)
         \<or> (224 \<le> (of_char c :: nat) \<and> (of_char c :: nat) \<le> 254 \<and> (of_char c :: nat) \<noteq> 247)
      then [char_of ((of_char c :: nat) - 32)]
      else if (of_char c :: nat) = 223 then [CHR 0x53, CHR 0x53]
      else [c])"





section \<open>Decimal numbers\<close>

lemma menor_que_diez: "d < 10 \<Longrightarrow> d \<in> {0, 1, 2, 3, 4, 5, 6, 7, 8, 9 :: nat}"
  by auto

lemma of_char_digito: "d < 10 \<Longrightarrow> (of_char (digito d) :: nat) = 48 + d"
  by (drule menor_que_diez) (auto simp: digito_def digitos_def)


lemma valor_digitos_snoc:
  "valor_digitos (xs @ [c]) = 10 * valor_digitos xs + (of_char c - 48)"
  by (simp add: valor_digitos_def)

lemma valor_digitos_str_nat: "valor_digitos (str_nat n) = n"
proof (induction n rule: str_nat.induct)
  case (1 n)
  show ?case
  proof (cases "n < 10")
    case True
    then show ?thesis
      by (subst str_nat.simps) (simp add: valor_digitos_def of_char_digito)
  next
    case False
    with 1 have "valor_digitos (str_nat (n div 10)) = n div 10" by simp
    with False show ?thesis
      by (subst str_nat.simps) (simp add: valor_digitos_snoc of_char_digito)
  qed
qed

lemma inj_str_nat: "inj str_nat"
  by (rule inj_on_inverseI [where g = valor_digitos]) (rule valor_digitos_str_nat)



lemma length_str_nat_menor: "n < 10 ^ k \<Longrightarrow> 0 < k \<Longrightarrow> length (str_nat n) \<le> k"
proof (induction n arbitrary: k rule: str_nat.induct)
  case (1 n)
  show ?case
  proof (cases "n < 10")
    case True
    with 1 show ?thesis by (subst str_nat.simps) simp
  next
    case False
    obtain j where k: "k = Suc j" using 1 by (cases k) auto
    with False 1 have "0 < j" by (cases j) auto
    moreover from 1 k have "n div 10 < 10 ^ j" by (simp add: less_mult_imp_div_less mult.commute)
    ultimately have "length (str_nat (n div 10)) \<le> j" using 1 False by simp
    with False k show ?thesis by (subst str_nat.simps) simp
  qed
qed


section \<open>The identifier loop terminates\<close>

lemma archivo_de_inj: "archivo_de a = archivo_de b \<longleftrightarrow> a = b"
  by (simp add: archivo_de_def)

lemma inj_candidato: "inj (\<lambda>k. archivo_de (base_id @ ''_'' @ str_nat k))"
  using inj_str_nat by (auto simp: inj_def archivo_de_inj)

lemma finite_sufijos_usados: "finite (sufijos_usados d base_id counter)"
proof -
  have "sufijos_usados d base_id counter
          \<subseteq> (\<lambda>k. archivo_de (base_id @ ''_'' @ str_nat k)) -` dom (map_of d)"
    by (auto simp: sufijos_usados_def path_exists_def)
  moreover have "finite ((\<lambda>k. archivo_de (base_id @ ''_'' @ str_nat k)) -` dom (map_of d))"
    by (rule finite_vimageI [OF finite_dom_map_of inj_candidato])
  ultimately show ?thesis by (rule finite_subset)
qed

lemma sufijos_usados_paso:
  "sufijos_usados d base_id counter =
     (if path_exists d (archivo_de (base_id @ ''_'' @ str_nat counter)) then {counter} else {})
       \<union> sufijos_usados d base_id (Suc counter)"
  by (auto simp: sufijos_usados_def Suc_le_eq le_less)

lemma card_sufijos_usados_paso:
  "card (sufijos_usados d base_id counter) =
     (if path_exists d (archivo_de (base_id @ ''_'' @ str_nat counter)) then 1 else 0)
       + card (sufijos_usados d base_id (Suc counter))"
proof -
  have "counter \<notin> sufijos_usados d base_id (Suc counter)"
    by (simp add: sufijos_usados_def)
  then show ?thesis
    by (subst sufijos_usados_paso) (simp add: finite_sufijos_usados)
qed

termination bucle_id
proof (relation "measure (\<lambda>(d, base_id, counter, unique_id).
         card (sufijos_usados d base_id counter)
           + (if path_exists d (archivo_de unique_id) then 1 else 0))")
  show "wf (measure (\<lambda>(d, base_id, counter, unique_id).
         card (sufijos_usados d base_id counter)
           + (if path_exists d (archivo_de unique_id) then 1 else 0)))"
    by simp
next
  fix d :: directorio and base_id :: string and counter :: nat and unique_id :: string
  assume "path_exists d (archivo_de unique_id)"
  then show "((d, base_id, counter + 1, base_id @ ''_'' @ str_nat counter),
              (d, base_id, counter, unique_id))
          \<in> measure (\<lambda>(d, base_id, counter, unique_id).
                card (sufijos_usados d base_id counter)
                  + (if path_exists d (archivo_de unique_id) then 1 else 0))"
    using card_sufijos_usados_paso [of d base_id counter] by simp
qed

declare bucle_id.simps [simp del]

section \<open>Customer numbers\<close>

















lemma formato_03d_tres:
  "0 \<le> i \<Longrightarrow> i < 1000 \<Longrightarrow>
     length (formato_03d i) = 3 \<and>
     formato_03d i = replicate (3 - length (str_int i)) CHR ''0'' @ str_int i"
proof -
  assume a: "0 \<le> i" "i < 1000"
  then have "nat i < 10 ^ 3" by simp
  then have "length (str_nat (nat i)) \<le> 3" by (rule length_str_nat_menor) simp
  with a show ?thesis by (simp add: formato_03d_def rellenar_def str_int_def)
qed


lemma contador_valido: "CHR 0x00 \<notin> set CONTADOR_FILE" "nombre_valido CONTADOR_FILE"
  by (simp_all add: nombre_valido_def bytes_utf8_def NAME_MAX_def CONTADOR_FILE_def)



section \<open>The phone validator\<close>

lemma validate_phone_iff:
  "validate_phone s \<longleftrightarrow>
     (length s = 10 \<and> list_all es_digito s) \<or>
     (\<exists>ds. s = ds @ [CHR 0x0A] \<and> length ds = 10 \<and> list_all es_digito ds)"
proof
  assume v: "validate_phone s"
  then have l: "10 \<le> length s" and d: "list_all es_digito (take 10 s)"
    and e: "drop 10 s = [] \<or> drop 10 s = [CHR 0x0A]"
    by (auto simp: validate_phone_def dolar_def)
  from e show "(length s = 10 \<and> list_all es_digito s) \<or>
     (\<exists>ds. s = ds @ [CHR 0x0A] \<and> length ds = 10 \<and> list_all es_digito ds)"
  proof
    assume "drop 10 s = []"
    with l d show ?thesis by simp
  next
    assume r: "drop 10 s = [CHR 0x0A]"
    have "s = take 10 s @ drop 10 s" by simp
    with r have "s = take 10 s @ [CHR 0x0A]" by simp
    with l d show ?thesis by (intro disjI2 exI [of _ "take 10 s"]) auto
  qed
next
  assume "(length s = 10 \<and> list_all es_digito s) \<or>
     (\<exists>ds. s = ds @ [CHR 0x0A] \<and> length ds = 10 \<and> list_all es_digito ds)"
  then show "validate_phone s"
    by (auto simp: validate_phone_def dolar_def)
qed

text \<open>
  C8. \<open>validate_phone\<close> is meant to accept exactly the strings of ten decimal digits. The
  pattern ends with \<open>$\<close>, which also holds before a final line feed: the eleven
  characters \<open>1234567890\n\<close>, the last of which is not a digit, are accepted.
\<close>

theorem validate_phone_salto_de_linea:
  "validate_phone (''1234567890'' @ [CHR 0x0A])
     \<and> length (''1234567890'' @ [CHR 0x0A]) = 11
     \<and> \<not> list_all es_digito (''1234567890'' @ [CHR 0x0A])"
  by (simp add: validate_phone_def dolar_def es_digito_def digitos_def)

section \<open>Saving and loading a record\<close>

lemmas paso = ligar_def py_input_def py_print_def evaluar_def devolver_def Let_def

lemma nul_en_archivo: "CHR 0x00 \<in> set (archivo_de cliente_id) \<longleftrightarrow> CHR 0x00 \<in> set cliente_id"
  by (auto simp: archivo_de_def)

lemma bytes_utf8_append: "bytes_utf8 (xs @ ys) = bytes_utf8 xs + bytes_utf8 ys"
  by (simp add: bytes_utf8_def)

lemma bytes_archivo: "bytes_utf8 (archivo_de cliente_id) = 13 + bytes_utf8 cliente_id"
  by (simp add: archivo_de_def bytes_utf8_append) (simp add: bytes_utf8_def)

lemma nombre_valido_archivo:
  "nombre_valido (archivo_de cliente_id)
     \<longleftrightarrow> CHR ''/'' \<notin> set cliente_id \<and> bytes_utf8 cliente_id \<le> 242"
  by (auto simp: nombre_valido_def bytes_archivo NAME_MAX_def) (auto simp: archivo_de_def)

lemma guardar_cliente_eq:
  "guardar_cliente cliente_id cliente_data w =
     (if CHR 0x00 \<in> set cliente_id then (Inl ValueError, w)
      else if \<not> nombre_valido (archivo_de cliente_id)
        then (Inr (), w\<lparr>impreso := impreso w @ [MsgErrorGuardar IOError]\<rparr>)
      else (Inr (), w\<lparr>archivos := AList.update (archivo_de cliente_id) (Documento cliente_data) (archivos w),
                       impreso := impreso w @ [MsgGuardado cliente_id]\<rparr>))"
  by (simp add: guardar_cliente_def escribir_def nul_en_archivo py_print_def)

lemma cargar_cliente_archivos:
  "archivos w1 = archivos w2 \<Longrightarrow> cargar_cliente cliente_id w1 = cargar_cliente cliente_id w2"
  by (simp add: cargar_cliente_def Let_def)

lemma cargar_cliente_invalido:
  "\<not> nombre_valido (archivo_de cliente_id) \<Longrightarrow> cargar_cliente cliente_id w = Inr JNull"
  by (simp add: cargar_cliente_def Let_def path_exists_def)

lemma cargar_tras_escribir:
  assumes "CHR 0x00 \<notin> set cliente_id" and "nombre_valido (archivo_de cliente_id)"
  shows "cargar_cliente otro
           (w\<lparr>archivos := AList.update (archivo_de cliente_id) (Documento cliente_data) (archivos w)\<rparr>)
           = (if otro = cliente_id then Inr cliente_data else cargar_cliente otro w)"
  using assms
  by (simp add: cargar_cliente_def Let_def path_exists_def update_conv' nul_en_archivo archivo_de_inj)

text \<open>
  C1, as amended. For every client record and every identifier with no NUL character:
  when the identifier has no slash and at most 242 bytes in UTF-8, so that the name of
  the record file has at most 255, \<open>guardar_cliente\<close> writes the record file and reports
  the save, and \<open>cargar_cliente\<close> of the same identifier then returns the record saved,
  equal in all its fields, the other identifiers loading what they loaded before;
  otherwise \<open>guardar_cliente\<close> reports the \<open>IOError\<close> of \<open>open\<close>, changes nothing, and
  \<open>cargar_cliente\<close> returns \<open>None\<close>.
\<close>

theorem guardar_cargar:
  assumes "es_cliente cliente_data" and "CHR 0x00 \<notin> set cliente_id"
  shows "(CHR ''/'' \<notin> set cliente_id \<and> bytes_utf8 cliente_id \<le> 242 \<longrightarrow>
            guardar_cliente cliente_id cliente_data w =
              (Inr (), w\<lparr>archivos := AList.update (archivo_de cliente_id) (Documento cliente_data) (archivos w),
                         impreso := impreso w @ [MsgGuardado cliente_id]\<rparr>)
            \<and> cargar_cliente cliente_id (snd (guardar_cliente cliente_id cliente_data w))
                = Inr cliente_data
            \<and> (\<forall>otro. otro \<noteq> cliente_id \<longrightarrow>
                  cargar_cliente otro (snd (guardar_cliente cliente_id cliente_data w))
                    = cargar_cliente otro w))
       \<and> (\<not> (CHR ''/'' \<notin> set cliente_id \<and> bytes_utf8 cliente_id \<le> 242) \<longrightarrow>
            guardar_cliente cliente_id cliente_data w =
              (Inr (), w\<lparr>impreso := impreso w @ [MsgErrorGuardar IOError]\<rparr>)
            \<and> cargar_cliente cliente_id (snd (guardar_cliente cliente_id cliente_data w))
                = Inr JNull)"
proof (intro conjI impI allI)
  assume "CHR ''/'' \<notin> set cliente_id \<and> bytes_utf8 cliente_id \<le> 242"
  then have v: "nombre_valido (archivo_de cliente_id)" by (simp add: nombre_valido_archivo)
  let ?w' = "w\<lparr>archivos := AList.update (archivo_de cliente_id) (Documento cliente_data) (archivos w),
                impreso := impreso w @ [MsgGuardado cliente_id]\<rparr>"
  show g: "guardar_cliente cliente_id cliente_data w = (Inr (), ?w')"
    using assms(2) v by (simp add: guardar_cliente_eq)
  have c: "\<And>otro. cargar_cliente otro ?w'
             = (if otro = cliente_id then Inr cliente_data else cargar_cliente otro w)"
  proof -
    fix otro
    have "cargar_cliente otro ?w' = cargar_cliente otro
        (w\<lparr>archivos := AList.update (archivo_de cliente_id) (Documento cliente_data) (archivos w)\<rparr>)"
      by (rule cargar_cliente_archivos) simp
    then show "cargar_cliente otro ?w'
             = (if otro = cliente_id then Inr cliente_data else cargar_cliente otro w)"
      using assms(2) v by (simp add: cargar_tras_escribir)
  qed
  from c [of cliente_id]
  show "cargar_cliente cliente_id (snd (guardar_cliente cliente_id cliente_data w)) = Inr cliente_data"
    by (simp add: g)
  fix otro assume "otro \<noteq> cliente_id"
  with c [of otro]
  show "cargar_cliente otro (snd (guardar_cliente cliente_id cliente_data w)) = cargar_cliente otro w"
    by (simp add: g)
next
  assume "\<not> (CHR ''/'' \<notin> set cliente_id \<and> bytes_utf8 cliente_id \<le> 242)"
  then have v: "\<not> nombre_valido (archivo_de cliente_id)" by (simp add: nombre_valido_archivo)
  show "guardar_cliente cliente_id cliente_data w =
              (Inr (), w\<lparr>impreso := impreso w @ [MsgErrorGuardar IOError]\<rparr>)"
    using assms(2) v by (simp add: guardar_cliente_eq)
  show "cargar_cliente cliente_id (snd (guardar_cliente cliente_id cliente_data w)) = Inr JNull"
    using v by (rule cargar_cliente_invalido)
qed

lemma es_cliente_ejemplo: "es_cliente registro_ejemplo"
  by (simp add: registro_ejemplo_def)

lemma bytes_id_largo: "bytes_utf8 id_largo = 243"
  by code_simp

lemma nul_id_largo: "CHR 0x00 \<notin> set id_largo"
  by (simp add: id_largo_def)

theorem guardar_cargar_witness:
  "cargar_cliente ''AB_20250602'' (snd (guardar_cliente ''AB_20250602'' registro_ejemplo mundo_nuevo))
     = Inr registro_ejemplo
   \<and> impreso (snd (guardar_cliente ''AB_20250602'' registro_ejemplo mundo_nuevo))
     = [MsgGuardado ''AB_20250602'']
   \<and> cargar_cliente ''A/B'' (snd (guardar_cliente ''A/B'' registro_ejemplo mundo_nuevo)) = Inr JNull
   \<and> impreso (snd (guardar_cliente id_largo registro_ejemplo mundo_nuevo))
     = [MsgErrorGuardar IOError]
   \<and> cargar_cliente id_largo (snd (guardar_cliente id_largo registro_ejemplo mundo_nuevo))
     = Inr JNull"
proof -
  have i: "impreso mundo_nuevo = []" by (simp add: mundo_nuevo_def)
  have 1: "CHR 0x00 \<notin> set ''AB_20250602''"
    "CHR ''/'' \<notin> set ''AB_20250602'' \<and> bytes_utf8 ''AB_20250602'' \<le> 242"
    by (simp_all add: bytes_utf8_def)
  have 2: "CHR 0x00 \<notin> set ''A/B''"
    "\<not> (CHR ''/'' \<notin> set ''A/B'' \<and> bytes_utf8 ''A/B'' \<le> 242)" by simp_all
  have 3: "\<not> (CHR ''/'' \<notin> set id_largo \<and> bytes_utf8 id_largo \<le> 242)"
    by (simp add: bytes_id_largo)
  note a = guardar_cargar [OF es_cliente_ejemplo 1(1), of mundo_nuevo]
  note b = guardar_cargar [OF es_cliente_ejemplo 2(1), of mundo_nuevo]
  note c = guardar_cargar [OF es_cliente_ejemplo nul_id_largo, of mundo_nuevo]
  from a 1(2) have r1: "cargar_cliente ''AB_20250602''
      (snd (guardar_cliente ''AB_20250602'' registro_ejemplo mundo_nuevo)) = Inr registro_ejemplo"
    by blast
  from a 1(2) have "guardar_cliente ''AB_20250602'' registro_ejemplo mundo_nuevo =
      (Inr (), mundo_nuevo\<lparr>archivos := AList.update (archivo_de ''AB_20250602'')
                 (Documento registro_ejemplo) (archivos mundo_nuevo),
               impreso := impreso mundo_nuevo @ [MsgGuardado ''AB_20250602'']\<rparr>)"
    by blast
  then have r2: "impreso (snd (guardar_cliente ''AB_20250602'' registro_ejemplo mundo_nuevo))
     = [MsgGuardado ''AB_20250602'']"
    by (simp add: i)
  from b 2(2) have r3: "cargar_cliente ''A/B''
      (snd (guardar_cliente ''A/B'' registro_ejemplo mundo_nuevo)) = Inr JNull"
    by blast
  from c 3 have "guardar_cliente id_largo registro_ejemplo mundo_nuevo =
      (Inr (), mundo_nuevo\<lparr>impreso := impreso mundo_nuevo @ [MsgErrorGuardar IOError]\<rparr>)"
    by blast
  then have r4: "impreso (snd (guardar_cliente id_largo registro_ejemplo mundo_nuevo))
     = [MsgErrorGuardar IOError]"
    by (simp add: i)
  from c 3 have r5: "cargar_cliente id_largo
      (snd (guardar_cliente id_largo registro_ejemplo mundo_nuevo)) = Inr JNull"
    by blast
  from r1 r2 r3 r4 r5 show ?thesis by blast
qed

text \<open>
  C1 as stated, for every identifier, fails: the record saved under \<open>A/B\<close> is not
  loaded back.
\<close>

theorem guardar_cargar_contraejemplo:
  "es_cliente registro_ejemplo
   \<and> fst (guardar_cliente ''A/B'' registro_ejemplo mundo_nuevo) = Inr ()
   \<and> cargar_cliente ''A/B'' (snd (guardar_cliente ''A/B'' registro_ejemplo mundo_nuevo))
       \<noteq> Inr registro_ejemplo"
proof -
  have "\<not> nombre_valido (archivo_de ''A/B'')" by (simp add: nombre_valido_archivo)
  then show ?thesis
    by (simp add: cargar_cliente_invalido guardar_cliente_eq registro_ejemplo_def)
qed

section \<open>The identifier generator\<close>

lemma bucle_id_libre: "\<not> path_exists d (archivo_de (bucle_id d base_id counter unique_id))"
proof (induction d base_id counter unique_id rule: bucle_id.induct)
  case (1 d base_id counter unique_id)
  then show ?case by (subst bucle_id.simps) simp
qed

lemma bucle_id_primero:
  "\<not> path_exists d (archivo_de unique_id) \<Longrightarrow> bucle_id d base_id counter unique_id = unique_id"
  by (subst bucle_id.simps) simp

lemma bucle_id_sufijo:
  "path_exists d (archivo_de unique_id) \<Longrightarrow>
     \<exists>k\<ge>counter. bucle_id d base_id counter unique_id = base_id @ ''_'' @ str_nat k
        \<and> (\<forall>j. counter \<le> j \<and> j < k \<longrightarrow> path_exists d (archivo_de (base_id @ ''_'' @ str_nat j)))"
proof (induction d base_id counter unique_id rule: bucle_id.induct)
  case (1 d base_id counter unique_id)
  let ?sig = "base_id @ ''_'' @ str_nat counter"
  have paso: "bucle_id d base_id counter unique_id = bucle_id d base_id (counter + 1) ?sig"
    using "1.prems" by (subst bucle_id.simps) simp
  show ?case
  proof (cases "path_exists d (archivo_de ?sig)")
    case False
    then have "bucle_id d base_id (counter + 1) ?sig = ?sig" by (rule bucle_id_primero)
    with paso show ?thesis by (intro exI [of _ counter]) auto
  next
    case True
    from "1.IH" [OF "1.prems" True] obtain k where k: "counter + 1 \<le> k"
      "bucle_id d base_id (counter + 1) ?sig = base_id @ ''_'' @ str_nat k"
      "\<forall>j. counter + 1 \<le> j \<and> j < k \<longrightarrow> path_exists d (archivo_de (base_id @ ''_'' @ str_nat j))"
      by blast
    have "\<forall>j. counter \<le> j \<and> j < k \<longrightarrow> path_exists d (archivo_de (base_id @ ''_'' @ str_nat j))"
    proof (intro allI impI)
      fix j assume j: "counter \<le> j \<and> j < k"
      show "path_exists d (archivo_de (base_id @ ''_'' @ str_nat j))"
      proof (cases "j = counter")
        case True with \<open>path_exists d (archivo_de ?sig)\<close> show ?thesis by simp
      next
        case False with j k(3) show ?thesis by simp
      qed
    qed
    with k paso show ?thesis by (intro exI [of _ k]) simp
  qed
qed

lemma str_nat_uno: "str_nat 1 = ''1''"
  by code_simp

lemma upper_char_unicode_todos: "\<forall>c. upper_char c = mayuscula_unicode c"
  by code_simp

lemma upper_char_unicode: "upper_char c = mayuscula_unicode c"
  using upper_char_unicode_todos by blast

text \<open>
  C3. For a given name that is not empty and a family name, the initials having an
  upper case among the characters of the model, \<open>generate_unique_id\<close> returns an
  identifier whose record file does not exist. The base is the upper case of the first
  character of the given name, the upper case of the first character of the family name
  when there is one, an underscore and the date of the day; the upper case is the one of
  the Unicode table, stated by code point. The base itself is returned when its record
  file does not exist, and otherwise the base with the suffix \<open>_k\<close> for the first \<open>k\<close>
  from 1 on whose record file does not exist.
\<close>

theorem generate_unique_id_correcto:
  assumes "nombre \<noteq> []"
    and "\<not> sin_mayuscula (hd nombre)"
    and "apellido \<noteq> [] \<longrightarrow> \<not> sin_mayuscula (hd apellido)"
  shows "\<exists>uid. generate_unique_id nombre apellido w = Inr uid
           \<and> \<not> path_exists (archivos w) (archivo_de uid)
           \<and> (\<not> path_exists (archivos w)
                   (archivo_de (mayuscula_unicode (hd nombre)
                      @ (if apellido = [] then [] else mayuscula_unicode (hd apellido))
                      @ ''_'' @ fecha_hoy w))
                \<longrightarrow> uid = mayuscula_unicode (hd nombre)
                      @ (if apellido = [] then [] else mayuscula_unicode (hd apellido))
                      @ ''_'' @ fecha_hoy w)
           \<and> (path_exists (archivos w)
                   (archivo_de (mayuscula_unicode (hd nombre)
                      @ (if apellido = [] then [] else mayuscula_unicode (hd apellido))
                      @ ''_'' @ fecha_hoy w))
                \<longrightarrow> (\<exists>k\<ge>1.
                       uid = (mayuscula_unicode (hd nombre)
                                @ (if apellido = [] then [] else mayuscula_unicode (hd apellido))
                                @ ''_'' @ fecha_hoy w)
                               @ ''_'' @ str_nat k
                       \<and> (\<forall>j. 1 \<le> j \<and> j < k \<longrightarrow>
                             path_exists (archivos w)
                               (archivo_de ((mayuscula_unicode (hd nombre)
                                  @ (if apellido = [] then [] else mayuscula_unicode (hd apellido))
                                  @ ''_'' @ fecha_hoy w) @ ''_'' @ str_nat j)))))"
proof -
  let ?base = "mayuscula_unicode (hd nombre)
                 @ (if apellido = [] then [] else mayuscula_unicode (hd apellido))
                 @ ''_'' @ fecha_hoy w"
  let ?uid = "bucle_id (archivos w) ?base 1 ?base"
  from assms(1) obtain n ns where n: "nombre = n # ns" by (cases nombre) auto
  have "upper (n # (if apellido \<noteq> [] then [hd apellido] else [])) @ ''_'' @ fecha_hoy w = ?base"
    by (cases apellido) (simp_all add: n upper_def upper_char_unicode)
  then have g: "generate_unique_id nombre apellido w = Inr ?uid"
    by (simp add: generate_unique_id_def n Let_def)
  have l: "\<not> path_exists (archivos w) (archivo_de ?uid)" by (rule bucle_id_libre)
  have p: "\<not> path_exists (archivos w) (archivo_de ?base) \<longrightarrow> ?uid = ?base"
    by (simp add: bucle_id_primero)
  have s: "path_exists (archivos w) (archivo_de ?base) \<longrightarrow>
        (\<exists>k\<ge>1. ?uid = ?base @ ''_'' @ str_nat k
           \<and> (\<forall>j. 1 \<le> j \<and> j < k \<longrightarrow>
                 path_exists (archivos w) (archivo_de (?base @ ''_'' @ str_nat j))))"
    using bucle_id_sufijo [of "archivos w" ?base 1 ?base] by blast
  from g l p s show ?thesis by blast
qed

lemma mayusculas_ejemplos:
  "mayuscula_unicode CHR ''a'' = ''A''" "mayuscula_unicode CHR ''b'' = ''B''"
  "mayuscula_unicode CHR 0xE9 = [CHR 0xC9]" "mayuscula_unicode CHR 0xDF = ''SS''"
  "mayuscula_unicode CHR ''7'' = ''7''"
  by code_simp+

lemma generate_tras_guardar:
  "generate_unique_id ''ana'' ''bello''
     (snd (guardar_cliente ''AB_20250602'' registro_ejemplo mundo_nuevo)) = Inr ''AB_20250602_1''"
  by code_simp

lemma nuevo_sin_archivos: "\<not> path_exists (archivos mundo_nuevo) (archivo_de cliente_id)"
  by (simp add: mundo_nuevo_def path_exists_def archivo_de_def CONTADOR_FILE_def)

lemma fecha_nuevo: "fecha_hoy mundo_nuevo = ''20250602''"
  by (simp add: mundo_nuevo_def)

theorem generate_unique_id_correcto_witness:
  "generate_unique_id ''ana'' ''bello'' mundo_nuevo = Inr ''AB_20250602''
   \<and> generate_unique_id [CHR 0xE9, CHR ''v'', CHR ''a''] [] mundo_nuevo
       = Inr (CHR 0xC9 # ''_20250602'')
   \<and> generate_unique_id [CHR 0xDF] ''7'' mundo_nuevo = Inr ''SS7_20250602''
   \<and> generate_unique_id ''ana'' ''bello''
        (snd (guardar_cliente ''AB_20250602'' registro_ejemplo mundo_nuevo)) = Inr ''AB_20250602_1''
   \<and> \<not> path_exists (archivos (snd (guardar_cliente ''AB_20250602'' registro_ejemplo mundo_nuevo)))
          (archivo_de ''AB_20250602_1'')"
proof -
  have h: "''ana'' \<noteq> []" "\<not> sin_mayuscula (hd ''ana'')"
    "''bello'' \<noteq> [] \<longrightarrow> \<not> sin_mayuscula (hd ''bello'')"
    by (simp_all add: sin_mayuscula_def)
  have h2: "[CHR 0xE9, CHR ''v'', CHR ''a''] \<noteq> []"
    "\<not> sin_mayuscula (hd [CHR 0xE9, CHR ''v'', CHR ''a''])"
    "[] \<noteq> [] \<longrightarrow> \<not> sin_mayuscula (hd [])"
    by (simp_all add: sin_mayuscula_def)
  have h3: "[CHR 0xDF] \<noteq> []" "\<not> sin_mayuscula (hd [CHR 0xDF])"
    "''7'' \<noteq> [] \<longrightarrow> \<not> sin_mayuscula (hd ''7'')"
    by (simp_all add: sin_mayuscula_def)
  from generate_unique_id_correcto [OF h, of mundo_nuevo]
  obtain u1 where 1: "generate_unique_id ''ana'' ''bello'' mundo_nuevo = Inr u1"
    "\<not> path_exists (archivos mundo_nuevo)
         (archivo_de (mayuscula_unicode (hd ''ana'')
            @ (if ''bello'' = [] then [] else mayuscula_unicode (hd ''bello''))
            @ ''_'' @ fecha_hoy mundo_nuevo))
       \<longrightarrow> u1 = mayuscula_unicode (hd ''ana'')
            @ (if ''bello'' = [] then [] else mayuscula_unicode (hd ''bello''))
            @ ''_'' @ fecha_hoy mundo_nuevo"
    by blast
  from 1(2) have "u1 = ''AB_20250602''"
    by (simp add: nuevo_sin_archivos fecha_nuevo mayusculas_ejemplos)
  with 1(1) have r1: "generate_unique_id ''ana'' ''bello'' mundo_nuevo = Inr ''AB_20250602''"
    by simp
  from generate_unique_id_correcto [OF h2, of mundo_nuevo]
  obtain u2 where 2: "generate_unique_id [CHR 0xE9, CHR ''v'', CHR ''a''] [] mundo_nuevo = Inr u2"
    "\<not> path_exists (archivos mundo_nuevo)
         (archivo_de (mayuscula_unicode (hd [CHR 0xE9, CHR ''v'', CHR ''a''])
            @ (if [] = ([] :: string) then [] else mayuscula_unicode (hd []))
            @ ''_'' @ fecha_hoy mundo_nuevo))
       \<longrightarrow> u2 = mayuscula_unicode (hd [CHR 0xE9, CHR ''v'', CHR ''a''])
            @ (if [] = ([] :: string) then [] else mayuscula_unicode (hd []))
            @ ''_'' @ fecha_hoy mundo_nuevo"
    by blast
  from 2(2) have "u2 = CHR 0xC9 # ''_20250602''"
    by (simp add: nuevo_sin_archivos fecha_nuevo mayusculas_ejemplos)
  with 2(1) have r2: "generate_unique_id [CHR 0xE9, CHR ''v'', CHR ''a''] [] mundo_nuevo
       = Inr (CHR 0xC9 # ''_20250602'')"
    by simp
  from generate_unique_id_correcto [OF h3, of mundo_nuevo]
  obtain u3 where 3: "generate_unique_id [CHR 0xDF] ''7'' mundo_nuevo = Inr u3"
    "\<not> path_exists (archivos mundo_nuevo)
         (archivo_de (mayuscula_unicode (hd [CHR 0xDF])
            @ (if ''7'' = [] then [] else mayuscula_unicode (hd ''7''))
            @ ''_'' @ fecha_hoy mundo_nuevo))
       \<longrightarrow> u3 = mayuscula_unicode (hd [CHR 0xDF])
            @ (if ''7'' = [] then [] else mayuscula_unicode (hd ''7''))
            @ ''_'' @ fecha_hoy mundo_nuevo"
    by blast
  from 3(2) have "u3 = ''SS7_20250602''"
    by (simp add: nuevo_sin_archivos fecha_nuevo mayusculas_ejemplos)
  with 3(1) have r3: "generate_unique_id [CHR 0xDF] ''7'' mundo_nuevo = Inr ''SS7_20250602''"
    by simp
  from generate_unique_id_correcto [OF h, of
      "snd (guardar_cliente ''AB_20250602'' registro_ejemplo mundo_nuevo)"]
  obtain u4 where 4: "generate_unique_id ''ana'' ''bello''
        (snd (guardar_cliente ''AB_20250602'' registro_ejemplo mundo_nuevo)) = Inr u4"
    "\<not> path_exists (archivos (snd (guardar_cliente ''AB_20250602'' registro_ejemplo mundo_nuevo)))
          (archivo_de u4)"
    by blast
  from 4(1) have "u4 = ''AB_20250602_1''" by (simp add: generate_tras_guardar)
  with 4 r1 r2 r3 show ?thesis by blast
qed

section \<open>Creation refuses invalid input\<close>

lemma generate_unique_id_devuelve:
  "nombre \<noteq> [] \<Longrightarrow> \<exists>u. generate_unique_id nombre apellido w = Inr u"
  by (cases nombre) (simp_all add: generate_unique_id_def Let_def)

lemma crear_nombre_vacio:
  "entrada w = l1 # r \<Longrightarrow> strip l1 = [] \<Longrightarrow>
     crear_cliente w = (Inr (), w\<lparr>entrada := r, impreso := impreso w @ [MsgNombreVacio]\<rparr>)"
  by (simp add: crear_cliente_def crear_cuerpo_def paso)

lemma crear_apellido_vacio:
  "entrada w = l1 # l2 # r \<Longrightarrow> strip l1 \<noteq> [] \<Longrightarrow> strip l2 = [] \<Longrightarrow>
     crear_cliente w = (Inr (), w\<lparr>entrada := r, impreso := impreso w @ [MsgApellidoVacio]\<rparr>)"
  by (simp add: crear_cliente_def crear_cuerpo_def paso)

lemma crear_tipo_invalido:
  assumes "entrada w = l1 # l2 # l3 # r" and "strip l1 \<noteq> []" and "strip l2 \<noteq> []"
    and "capitalize (strip l3) \<notin> {''Persona'', ''Negocio''}"
  shows "crear_cliente w = (Inr (), w\<lparr>entrada := r, impreso := impreso w @ [MsgTipoInvalido]\<rparr>)"
proof -
  obtain u where "generate_unique_id (strip l1) (strip l2) (w\<lparr>entrada := l3 # r\<rparr>) = Inr u"
    using generate_unique_id_devuelve [OF assms(2)] by blast
  with assms show ?thesis
    by (simp add: crear_cliente_def crear_cuerpo_def paso)
qed

lemma crear_contacto_invalido:
  assumes "entrada w = l1 # l2 # l3 # l4 # r" and "strip l1 \<noteq> []" and "strip l2 \<noteq> []"
    and "capitalize (strip l3) \<in> {''Persona'', ''Negocio''}"
    and "\<not> validate_phone (strip l4)" and "\<not> validate_email (strip l4)"
  shows "crear_cliente w = (Inr (), w\<lparr>entrada := r, impreso := impreso w @ [MsgContactoInvalido]\<rparr>)"
proof -
  obtain u where "generate_unique_id (strip l1) (strip l2) (w\<lparr>entrada := l3 # l4 # r\<rparr>) = Inr u"
    using generate_unique_id_devuelve [OF assms(2)] by blast
  with assms show ?thesis
    by (auto simp: crear_cliente_def crear_cuerpo_def paso)
qed

text \<open>
  C4. When a validation of \<open>crear_cliente\<close> fails (the given name or the family name is
  empty after stripping, the capitalised type is neither \<open>Persona\<close> nor \<open>Negocio\<close>, or the
  contact passes neither validator), the operation prints the message of that validation
  and returns; the lines read are consumed and nothing else changes: the directory, its
  number of entries, the counter in memory, the counter file and the dictionary
  \<open>clientes\<close> are as before.
\<close>

theorem crear_cliente_validacion:
  assumes "(entrada w = l1 # r \<and> strip l1 = [] \<and> m = MsgNombreVacio)
         \<or> (entrada w = l1 # l2 # r \<and> strip l1 \<noteq> [] \<and> strip l2 = [] \<and> m = MsgApellidoVacio)
         \<or> (entrada w = l1 # l2 # l3 # r \<and> strip l1 \<noteq> [] \<and> strip l2 \<noteq> []
              \<and> capitalize (strip l3) \<notin> {''Persona'', ''Negocio''} \<and> m = MsgTipoInvalido)
         \<or> (entrada w = l1 # l2 # l3 # l4 # r \<and> strip l1 \<noteq> [] \<and> strip l2 \<noteq> []
              \<and> capitalize (strip l3) \<in> {''Persona'', ''Negocio''}
              \<and> \<not> validate_phone (strip l4) \<and> \<not> validate_email (strip l4)
              \<and> m = MsgContactoInvalido)"
  shows "crear_cliente w = (Inr (), w\<lparr>entrada := r, impreso := impreso w @ [m]\<rparr>)
       \<and> archivos (snd (crear_cliente w)) = archivos w
       \<and> length (listdir (archivos (snd (crear_cliente w)))) = length (listdir (archivos w))
       \<and> CONTADOR_CLIENTE (snd (crear_cliente w)) = CONTADOR_CLIENTE w
       \<and> map_of (archivos (snd (crear_cliente w))) CONTADOR_FILE = map_of (archivos w) CONTADOR_FILE
       \<and> clientes (snd (crear_cliente w)) = clientes w"
proof -
  from assms
  have "crear_cliente w = (Inr (), w\<lparr>entrada := r, impreso := impreso w @ [m]\<rparr>)"
    using crear_nombre_vacio [of w l1 r] crear_apellido_vacio [of w l1 l2 r]
      crear_tipo_invalido [of w l1 l2 l3 r] crear_contacto_invalido [of w l1 l2 l3 l4 r]
    by (elim disjE conjE) simp_all
  then show ?thesis by simp
qed

lemma strip_juan: "strip ''Juan'' = ''Juan''" "strip ''Perez'' = ''Perez''" "strip ''persona'' = ''persona''"
  "strip ''notanemail'' = ''notanemail''"
  by (simp_all add: strip_def es_espacio_def)

lemma no_valida: "\<not> validate_phone ''notanemail''" "\<not> validate_email ''notanemail''"
   apply (simp add: validate_phone_def es_digito_def digitos_def)
  apply (simp add: validate_email_def clase_local_def es_alfanum_def minusculas_def mayusculas_def digitos_def)
  done

lemma capitalize_persona: "capitalize ''persona'' = ''Persona''"
  by code_simp

theorem crear_cliente_validacion_witness:
  "crear_cliente mundo_contacto_malo
     = (Inr (), mundo_contacto_malo\<lparr>entrada := [], impreso := [MsgContactoInvalido]\<rparr>)
   \<and> archivos (snd (crear_cliente mundo_contacto_malo)) = archivos mundo_ejemplo
   \<and> CONTADOR_CLIENTE (snd (crear_cliente mundo_contacto_malo)) = 1"
proof -
  have e: "entrada mundo_contacto_malo = [''Juan'', ''Perez'', ''persona'', ''notanemail'']"
    and i: "impreso mundo_contacto_malo = []"
    and a: "archivos mundo_contacto_malo = archivos mundo_ejemplo"
    and c: "CONTADOR_CLIENTE mundo_contacto_malo = 1"
    by (simp_all add: mundo_contacto_malo_def mundo_ejemplo_def)
  have t: "capitalize (strip ''persona'') \<in> {''Persona'', ''Negocio''}"
    by (simp add: strip_juan capitalize_persona)
  have "(entrada mundo_contacto_malo = ''Juan'' # [] \<and> strip ''Juan'' = [] \<and> MsgContactoInvalido = MsgNombreVacio)
         \<or> (entrada mundo_contacto_malo = ''Juan'' # ''Perez'' # [] \<and> strip ''Juan'' \<noteq> [] \<and> strip ''Perez'' = [] \<and> MsgContactoInvalido = MsgApellidoVacio)
         \<or> (entrada mundo_contacto_malo = ''Juan'' # ''Perez'' # ''persona'' # [] \<and> strip ''Juan'' \<noteq> [] \<and> strip ''Perez'' \<noteq> []
              \<and> capitalize (strip ''persona'') \<notin> {''Persona'', ''Negocio''} \<and> MsgContactoInvalido = MsgTipoInvalido)
         \<or> (entrada mundo_contacto_malo = ''Juan'' # ''Perez'' # ''persona'' # ''notanemail'' # [] \<and> strip ''Juan'' \<noteq> [] \<and> strip ''Perez'' \<noteq> []
              \<and> capitalize (strip ''persona'') \<in> {''Persona'', ''Negocio''}
              \<and> \<not> validate_phone (strip ''notanemail'') \<and> \<not> validate_email (strip ''notanemail'')
              \<and> MsgContactoInvalido = MsgContactoInvalido)"
    using e t no_valida by (simp add: strip_juan)
  from crear_cliente_validacion [OF this] show ?thesis
    by (simp add: i a c)
qed

section \<open>A creation that passes the validations\<close>



section \<open>What the loops read and print\<close>

lemma bucle_buscar_archivos:
  "archivos w1 = archivos w2 \<Longrightarrow>
     bucle_buscar criterio valor w1 fs rs = bucle_buscar criterio valor w2 fs rs"
  by (induction fs arbitrary: rs)
     (simp_all add: Let_def cargar_cliente_archivos [of w1 w2] split: sum.splits)

lemma buscar_clientes_archivos:
  "archivos w1 = archivos w2 \<Longrightarrow>
     buscar_clientes criterio valor w1 = buscar_clientes criterio valor w2"
  by (simp add: buscar_clientes_def bucle_buscar_archivos [of w1 w2])

lemma cargados_de_archivos:
  "archivos w1 = archivos w2 \<Longrightarrow> cargados_de fs w1 = cargados_de fs w2"
  by (simp add: cargados_de_def valor_cargado_def cargar_cliente_archivos [of w1 w2])

lemma cargados_archivos: "archivos w1 = archivos w2 \<Longrightarrow> cargados w1 = cargados w2"
  by (simp add: cargados_def cargados_de_archivos [of w1 w2])

lemma carga_bien_archivos:
  "archivos w1 = archivos w2 \<Longrightarrow> carga_bien fs w1 = carga_bien fs w2"
  by (simp add: carga_bien_def cargar_cliente_archivos [of w1 w2])

lemma lineas_listar_archivos:
  "archivos w1 = archivos w2 \<Longrightarrow> lineas_listar fs w1 = lineas_listar fs w2"
  by (induction fs) (simp_all add: cargar_cliente_archivos [of w1 w2] split: sum.splits)

lemma fin_listar_archivos:
  "archivos w1 = archivos w2 \<Longrightarrow> fin_listar fs w1 = fin_listar fs w2"
  by (induction fs) (simp_all add: cargar_cliente_archivos [of w1 w2] split: sum.splits)

lemma imprimir_candidatos_eq:
  "imprimir_candidatos rs w = (fin_candidatos rs, w\<lparr>impreso := impreso w @ lineas_candidatos rs\<rparr>)"
  by (induction rs arbitrary: w) (auto split: sum.splits)

lemma imprimir_detalles_eq:
  "imprimir_detalles rs w = (fin_detalle rs, w\<lparr>impreso := impreso w @ lineas_detalle rs\<rparr>)"
  by (induction rs arbitrary: w) (auto split: sum.splits)

lemma bucle_listar_eq:
  "bucle_listar fs w = (fin_listar fs w, w\<lparr>impreso := impreso w @ lineas_listar fs w\<rparr>)"
proof (induction fs arbitrary: w)
  case Nil
  show ?case by simp
next
  case (Cons f fs)
  have c: "\<And>x i. cargar_cliente i (w\<lparr>impreso := x\<rparr>) = cargar_cliente i w"
    by (rule cargar_cliente_archivos) simp
  have l: "\<And>x. lineas_listar fs (w\<lparr>impreso := x\<rparr>) = lineas_listar fs w"
    by (rule lineas_listar_archivos) simp
  have f: "\<And>x. fin_listar fs (w\<lparr>impreso := x\<rparr>) = fin_listar fs w"
    by (rule fin_listar_archivos) simp
  show ?case
    by (simp add: Let_def Cons.IH c l f split: sum.splits)
qed

lemma listar_clientes_eq:
  "listar_clientes w =
     (if listdir (archivos w) = [] then (Inr (), w\<lparr>impreso := impreso w @ [MsgNoHayClientes]\<rparr>)
      else (fin_listar (listdir (archivos w)) w,
            w\<lparr>impreso := impreso w @ lineas_listar (listdir (archivos w)) w\<rparr>))"
  by (simp add: listar_clientes_def bucle_listar_eq py_print_def)

text \<open>When no load of the listing raises, the loop of the listing prints the summary
  lines of the records reached.\<close>

lemma carga_bien_cons:
  "carga_bien (f # fs) w \<longleftrightarrow>
     (es_archivo_cliente f \<longrightarrow> (\<exists>j. cargar_cliente (id_de_archivo f) w = Inr j))
     \<and> carga_bien fs w"
  by (auto simp: carga_bien_def split: sum.splits)

lemma listar_cargados:
  "carga_bien fs w \<Longrightarrow>
     fin_listar fs w = fin_resumen (cargados_de fs w)
     \<and> lineas_listar fs w = lineas_resumen (cargados_de fs w)"
proof (induction fs)
  case Nil
  show ?case by (simp add: cargados_de_def)
next
  case (Cons f fs)
  from Cons.prems have b: "carga_bien fs w" by (simp add: carga_bien_cons)
  note ih = Cons.IH [OF b]
  show ?case
  proof (cases "es_archivo_cliente f")
    case False
    with ih show ?thesis by (simp add: cargados_de_def)
  next
    case True
    with Cons.prems obtain j where j: "cargar_cliente (id_de_archivo f) w = Inr j"
      by (auto simp: carga_bien_cons)
    have c: "cargados_de (f # fs) w
        = (if py_bool j then (id_de_archivo f, j) # cargados_de fs w else cargados_de fs w)"
      using True j by (simp add: cargados_de_def valor_cargado_def)
    show ?thesis
      using True j ih by (simp add: c split: sum.splits)
  qed
qed

lemma buscar_clientes_cache [simp]:
  "buscar_clientes criterio valor (w\<lparr>clientes := c\<rparr>) = buscar_clientes criterio valor w"
  "buscar_clientes criterio valor (w\<lparr>entrada := e\<rparr>) = buscar_clientes criterio valor w"
  "buscar_clientes criterio valor (w\<lparr>impreso := i\<rparr>) = buscar_clientes criterio valor w"
  by (rule buscar_clientes_archivos, simp)+

lemma cargados_cache [simp]:
  "cargados (w\<lparr>clientes := c\<rparr>) = cargados w"
  "cargados (w\<lparr>entrada := e\<rparr>) = cargados w"
  "cargados (w\<lparr>impreso := i\<rparr>) = cargados w"
  by (rule cargados_archivos, simp)+

lemma listar_cache [simp]:
  "lineas_listar fs (w\<lparr>clientes := c\<rparr>) = lineas_listar fs w"
  "fin_listar fs (w\<lparr>clientes := c\<rparr>) = fin_listar fs w"
  by (rule lineas_listar_archivos, simp) (rule fin_listar_archivos, simp)

lemma leer_cliente_cache:
  "leer_cliente (w\<lparr>clientes := c\<rparr>)
     = (fst (leer_cliente w), (snd (leer_cliente w))\<lparr>clientes := c\<rparr>)"
  by (simp add: leer_cliente_def paso imprimir_detalles_eq
      split: list.splits option.splits sum.splits)

lemma listar_clientes_cache:
  "listar_clientes (w\<lparr>clientes := c\<rparr>)
     = (fst (listar_clientes w), (snd (listar_clientes w))\<lparr>clientes := c\<rparr>)"
  by (simp add: listar_clientes_eq)

lemma modificar_cliente_cache:
  "modificar_cliente (w\<lparr>clientes := c\<rparr>)
     = (fst (modificar_cliente w), (snd (modificar_cliente w))\<lparr>clientes := c\<rparr>)"
  by (simp add: modificar_cliente_def paso imprimir_candidatos_eq guardar_cliente_eq
      split: list.splits option.splits sum.splits prod.splits)

section \<open>The dictionary in memory is never read\<close>

text \<open>
  C10. The dictionary \<open>clientes\<close> has no effect on what searching, reading, updating and
  listing do: run in a state whose dictionary is replaced by any other, \<open>buscar_clientes\<close>
  returns the same result, and \<open>leer_cliente\<close>, \<open>modificar_cliente\<close> and
  \<open>listar_clientes\<close> end with the same value or exception and in the same state (the
  same directory, counter, remaining input and printed output), the dictionary being
  the one they started with.
\<close>

theorem cache_sin_efecto:
  "buscar_clientes criterio valor (w\<lparr>clientes := c\<rparr>) = buscar_clientes criterio valor w
   \<and> leer_cliente (w\<lparr>clientes := c\<rparr>)
       = (fst (leer_cliente w), (snd (leer_cliente w))\<lparr>clientes := c\<rparr>)
   \<and> modificar_cliente (w\<lparr>clientes := c\<rparr>)
       = (fst (modificar_cliente w), (snd (modificar_cliente w))\<lparr>clientes := c\<rparr>)
   \<and> listar_clientes (w\<lparr>clientes := c\<rparr>)
       = (fst (listar_clientes w), (snd (listar_clientes w))\<lparr>clientes := c\<rparr>)"
  using buscar_clientes_cache(1) leer_cliente_cache modificar_cliente_cache listar_clientes_cache
  by blast

section \<open>Listing an empty store\<close>

lemma inicializar_deja_contador:
  assumes "fst (inicializar w) = Inr u"
  shows "path_exists (archivos (snd (inicializar w))) CONTADOR_FILE"
proof (cases "path_exists (archivos w) CONTADOR_FILE")
  case True
  with assms show ?thesis
    by (auto simp: inicializar_def split: option.splits sum.splits)
next
  case False
  with assms show ?thesis
    by (auto simp: inicializar_def escribir_def contador_valido path_exists_def update_conv' Let_def
        split: sum.splits)
qed

lemma listar_clientes_con_contador:
  assumes "path_exists (archivos w) CONTADOR_FILE"
  shows "listar_clientes w =
           (fin_listar (listdir (archivos w)) w,
            w\<lparr>impreso := impreso w @ lineas_listar (listdir (archivos w)) w\<rparr>)"
proof -
  from assms have "listdir (archivos w) \<noteq> []"
    by (auto simp: path_exists_def listdir_def)
  then show ?thesis by (simp add: listar_clientes_eq)
qed

lemma lineas_listar_sin_mensaje: "MsgNoHayClientes \<notin> set (lineas_listar fs w)"
  by (induction fs) (simp_all split: sum.splits)

text \<open>
  C9. With no client record in the store, \<open>listar_clientes\<close> is meant to report that
  there are no records. The start of the program on an empty directory creates the
  counter file in that same directory, so the listing is not empty: no record is
  loaded, and \<open>listar_clientes\<close> prints nothing at all.
\<close>

theorem listar_clientes_sin_registros:
  "inicializar (mundo_nuevo\<lparr>archivos := []\<rparr>) = (Inr (), mundo_nuevo)
   \<and> cargados mundo_nuevo = []
   \<and> listar_clientes mundo_nuevo = (Inr (), mundo_nuevo)
   \<and> impreso (snd (listar_clientes mundo_nuevo)) \<noteq> [MsgNoHayClientes]"
  by (simp add: inicializar_def mundo_nuevo_def path_exists_def CONTADOR_FILE_def escribir_def
      listdir_def cargados_def cargados_de_def es_archivo_cliente_def listar_clientes_def
      nombre_valido_def bytes_utf8_def NAME_MAX_def)

section \<open>The search returns the matching records\<close>

lemma bucle_buscar_filtrar:
  "carga_bien fs w \<Longrightarrow>
   bucle_buscar criterio valor w fs rs =
     (case filtrar criterio valor (cargados_de fs w) of
        Inl e \<Rightarrow> Inl e
      | Inr ms \<Rightarrow> Inr (rs @ ms))"
proof (induction fs arbitrary: rs)
  case Nil
  show ?case by (simp add: cargados_de_def)
next
  case (Cons f fs)
  from Cons.prems have b: "carga_bien fs w" by (simp add: carga_bien_cons)
  note ih = Cons.IH [OF b]
  show ?case
  proof (cases "es_archivo_cliente f")
    case False
    then have "cargados_de (f # fs) w = cargados_de fs w" by (simp add: cargados_de_def)
    with False ih show ?thesis by simp
  next
    case True
    with Cons.prems obtain j where j: "cargar_cliente (id_de_archivo f) w = Inr j"
      by (auto simp: carga_bien_cons)
    have c: "cargados_de (f # fs) w
        = (if py_bool j then (id_de_archivo f, j) # cargados_de fs w else cargados_de fs w)"
      using True j by (simp add: cargados_de_def valor_cargado_def)
    show ?thesis
      using True j by (simp add: c ih Let_def split: sum.splits)
  qed
qed

lemma bucle_buscar_carga_bien:
  "bucle_buscar criterio valor w fs rs = Inr r \<Longrightarrow> carga_bien fs w"
proof (induction fs arbitrary: rs)
  case Nil
  show ?case by (simp add: carga_bien_def)
next
  case (Cons f fs)
  show ?case
  proof (cases "es_archivo_cliente f")
    case False
    with Cons.prems have "bucle_buscar criterio valor w fs rs = Inr r" by simp
    from Cons.IH [OF this] False show ?thesis by (simp add: carga_bien_cons)
  next
    case True
    with Cons.prems obtain j where j: "cargar_cliente (id_de_archivo f) w = Inr j"
      by (cases "cargar_cliente (id_de_archivo f) w") (simp_all add: Let_def)
    from Cons.prems True j obtain rs' where "bucle_buscar criterio valor w fs rs' = Inr r"
      by (auto simp: Let_def split: if_splits sum.splits)
    from Cons.IH [OF this] j show ?thesis by (simp add: carga_bien_cons)
  qed
qed

lemma buscar_clientes_filtrar:
  "carga_bien (listdir (archivos w)) w \<Longrightarrow>
     buscar_clientes criterio valor w = filtrar criterio valor (cargados w)"
  by (simp add: buscar_clientes_def bucle_buscar_filtrar cargados_def split: sum.splits)

lemma buscar_clientes_carga_bien:
  "buscar_clientes criterio valor w = Inr rs \<Longrightarrow> carga_bien (listdir (archivos w)) w"
  unfolding buscar_clientes_def by (rule bucle_buscar_carga_bien)




lemma py_bool_no_nulo: "py_bool cliente \<Longrightarrow> cliente \<noteq> JNull"
  by auto


lemma valor_cargado_no_nulo:
  "valor_cargado cliente_id w \<noteq> JNull \<Longrightarrow>
     cargar_cliente cliente_id w = Inr (valor_cargado cliente_id w)"
  by (cases "cargar_cliente cliente_id w") (simp_all add: valor_cargado_def)










section \<open>What a search returns was loaded\<close>

lemma filtrar_subconjunto:
  "filtrar criterio valor xs = Inr rs \<Longrightarrow> set rs \<subseteq> set xs"
proof (induction xs arbitrary: rs)
  case Nil
  then show ?case by simp
next
  case (Cons x xs)
  obtain i cl where x: "x = (i, cl)" by (cases x)
  from Cons.prems obtain si ms where c: "coincide criterio valor i cl = Inr si"
    and f: "filtrar criterio valor xs = Inr ms"
    and r: "rs = (if si then (i, cl) # ms else ms)"
    by (auto simp: x split: sum.splits)
  from Cons.IH [OF f] have "set ms \<subseteq> set xs" .
  with r x show ?case by auto
qed

lemma cargados_miembro:
  "(cliente_id, cliente) \<in> set (cargados w) \<Longrightarrow>
     cargar_cliente cliente_id w = Inr cliente \<and> py_bool cliente"
  by (auto simp: cargados_def cargados_de_def intro!: valor_cargado_no_nulo)

lemma buscar_clientes_miembro:
  assumes "buscar_clientes criterio valor w = Inr rs" and "(cliente_id, cliente) \<in> set rs"
  shows "cargar_cliente cliente_id w = Inr cliente \<and> py_bool cliente"
proof -
  from assms(1) have "carga_bien (listdir (archivos w)) w" by (rule buscar_clientes_carga_bien)
  with assms(1) have "set rs \<subseteq> set (cargados w)"
    by (simp add: buscar_clientes_filtrar filtrar_subconjunto)
  with assms(2) show ?thesis by (auto dest: cargados_miembro)
qed

lemma cargar_cliente_existe:
  assumes "cargar_cliente cliente_id w = Inr cliente" and "py_bool cliente"
  shows "path_exists (archivos w) (archivo_de cliente_id)
       \<and> map_of (archivos w) (archivo_de cliente_id) = Some (Documento cliente)
       \<and> CHR 0x00 \<notin> set cliente_id \<and> nombre_valido (archivo_de cliente_id)"
proof -
  from assms have e: "path_exists (archivos w) (archivo_de cliente_id)"
    by (auto simp: cargar_cliente_def Let_def split: if_splits)
  then obtain c where c: "map_of (archivos w) (archivo_de cliente_id) = Some c"
    by (auto simp: path_exists_def)
  from assms e c have "c = Documento cliente"
    by (cases c) (auto simp: cargar_cliente_def Let_def)
  with e c show ?thesis by (simp add: path_exists_def nul_en_archivo)
qed

lemma coincide_id: "coincide ''id'' valor cliente_id cliente = Inr (cliente_id = valor)"
  by (simp add: coincide_def)

lemma filtrar_id:
  "filtrar ''id'' valor xs = Inr (filter (\<lambda>(cliente_id, cliente). cliente_id = valor) xs)"
  by (induction xs) (auto simp: coincide_id)

lemma cargar_tras_borrar:
  "cargar_cliente otro (w\<lparr>archivos := AList.delete (archivo_de cliente_id) (archivos w)\<rparr>)
     = (if otro = cliente_id then Inr JNull else cargar_cliente otro w)"
  by (simp add: cargar_cliente_def Let_def path_exists_def delete_conv archivo_de_inj)

lemma carga_bien_subconjunto:
  "set fs' \<subseteq> set fs \<Longrightarrow> carga_bien fs w \<Longrightarrow> carga_bien fs' w"
  by (auto simp: carga_bien_def list_all_iff)

lemma carga_bien_tras_borrar:
  assumes "carga_bien (listdir (archivos w)) w"
  shows "carga_bien (listdir (AList.delete (archivo_de cliente_id) (archivos w)))
           (w\<lparr>archivos := AList.delete (archivo_de cliente_id) (archivos w)\<rparr>)"
proof -
  have s: "set (listdir (AList.delete (archivo_de cliente_id) (archivos w)))
             \<subseteq> set (listdir (archivos w))"
    by (auto simp: listdir_def AList.delete_eq)
  have "carga_bien (listdir (archivos w))
          (w\<lparr>archivos := AList.delete (archivo_de cliente_id) (archivos w)\<rparr>)"
    using assms
    by (auto simp: carga_bien_def list_all_iff cargar_tras_borrar split: sum.splits)
  with s show ?thesis by (rule carga_bien_subconjunto)
qed

lemma buscar_id_ausente:
  assumes "carga_bien (listdir (archivos w)) w" and "cargar_cliente cliente_id w = Inr JNull"
  shows "buscar_clientes ''id'' cliente_id w = Inr []"
proof -
  have "filter (\<lambda>(i, cl). i = cliente_id) (cargados w) = []"
  proof (rule ccontr)
    assume "filter (\<lambda>(i, cl). i = cliente_id) (cargados w) \<noteq> []"
    then obtain p where "p \<in> set (filter (\<lambda>(i, cl). i = cliente_id) (cargados w))"
      by (cases "filter (\<lambda>(i, cl). i = cliente_id) (cargados w)") auto
    then obtain cl where "(cliente_id, cl) \<in> set (cargados w)" by auto
    then have "cargar_cliente cliente_id w = Inr cl \<and> py_bool cl" by (rule cargados_miembro)
    with assms(2) show False by auto
  qed
  with assms(1) show ?thesis by (simp add: buscar_clientes_filtrar filtrar_id)
qed

section \<open>Deletion\<close>

lemma eliminar_cliente_ninguno:
  assumes "entrada w = l1 # l2 # r" and "criterio_de (strip l1) = Some criterio"
    and "buscar_clientes criterio (strip l2) w = Inr []"
  shows "eliminar_cliente w = (Inr (), w\<lparr>entrada := r, impreso := impreso w @ [MsgNoEncontrados]\<rparr>)"
  using assms by (simp add: eliminar_cliente_def paso)

lemma eliminar_cliente_varios:
  assumes "entrada w = l1 # l2 # r" and "criterio_de (strip l1) = Some criterio"
    and "buscar_clientes criterio (strip l2) w = Inr rs" and "1 < length rs"
  shows "eliminar_cliente w =
           (fin_candidatos rs,
            w\<lparr>entrada := r, impreso := impreso w @ MsgMultiplesEliminar # lineas_candidatos rs\<rparr>)"
proof -
  from assms(4) obtain a b cs where "rs = a # b # cs"
    by (cases rs; cases "tl rs") auto
  with assms(1-3) show ?thesis
    by (simp add: eliminar_cliente_def paso imprimir_candidatos_eq split: prod.splits)
qed

lemma eliminar_cliente_uno:
  assumes "entrada w = l1 # l2 # r" and "criterio_de (strip l1) = Some criterio"
    and "buscar_clientes criterio (strip l2) w = Inr [(cliente_id, cliente)]"
  shows "eliminar_cliente w =
     (case py_getitem cliente ''numero_cliente'' of
        Inl e \<Rightarrow>
          (Inl e, w\<lparr>entrada := r,
                     archivos := AList.delete (archivo_de cliente_id) (archivos w),
                     clientes := AList.delete cliente_id (clientes w)\<rparr>)
      | Inr v \<Rightarrow>
          (Inr (), w\<lparr>entrada := r,
                     archivos := AList.delete (archivo_de cliente_id) (archivos w),
                     clientes := AList.delete cliente_id (clientes w),
                     impreso := impreso w @ [MsgEliminado cliente_id v]\<rparr>))"
proof -
  from buscar_clientes_miembro [OF assms(3), of cliente_id cliente]
  have "cargar_cliente cliente_id w = Inr cliente" "py_bool cliente" by auto
  then have e: "path_exists (archivos w) (archivo_de cliente_id)"
    by (simp add: cargar_cliente_existe)
  have d: "cliente_id \<notin> fst ` set (clientes w) \<Longrightarrow> AList.delete cliente_id (clientes w) = clientes w"
    by simp
  show ?thesis
    using e d assms
    by (simp add: eliminar_cliente_def paso remove_def split: sum.splits)
qed

text \<open>
  C6. \<open>eliminar_cliente\<close>, the criterion chosen and the value typed, the search having
  returned: with no match it reports that nothing was found and changes nothing else;
  with several matches it reports the ambiguity and removes nothing, the directory and
  the dictionary being as before; with exactly one match the record file, which
  existed, is removed from the directory, the identifier is no longer a key of the
  dictionary in memory, a search by that identifier then returns the empty list, the
  other identifiers load what they loaded before, and the deletion is reported when the
  record has a customer number to show.
\<close>

theorem eliminar_cliente_correcto:
  assumes "entrada w = l1 # l2 # r" and "criterio_de (strip l1) = Some criterio"
    and "buscar_clientes criterio (strip l2) w = Inr rs"
  shows "(rs = [] \<longrightarrow>
            eliminar_cliente w
              = (Inr (), w\<lparr>entrada := r, impreso := impreso w @ [MsgNoEncontrados]\<rparr>))
       \<and> (1 < length rs \<longrightarrow>
            snd (eliminar_cliente w)
              = w\<lparr>entrada := r,
                  impreso := impreso w @ MsgMultiplesEliminar # lineas_candidatos rs\<rparr>)
       \<and> (\<forall>cliente_id cliente. rs = [(cliente_id, cliente)] \<longrightarrow>
            path_exists (archivos w) (archivo_de cliente_id)
            \<and> archivos (snd (eliminar_cliente w))
                = AList.delete (archivo_de cliente_id) (archivos w)
            \<and> \<not> path_exists (archivos (snd (eliminar_cliente w))) (archivo_de cliente_id)
            \<and> clientes (snd (eliminar_cliente w)) = AList.delete cliente_id (clientes w)
            \<and> map_of (clientes (snd (eliminar_cliente w))) cliente_id = None
            \<and> buscar_clientes ''id'' cliente_id (snd (eliminar_cliente w)) = Inr []
            \<and> (\<forall>otro. otro \<noteq> cliente_id \<longrightarrow>
                  cargar_cliente otro (snd (eliminar_cliente w)) = cargar_cliente otro w)
            \<and> (\<forall>v. py_getitem cliente ''numero_cliente'' = Inr v \<longrightarrow>
                  fst (eliminar_cliente w) = Inr ()
                  \<and> impreso (snd (eliminar_cliente w))
                      = impreso w @ [MsgEliminado cliente_id v]))"
proof (intro conjI allI impI)
  assume "rs = []"
  with assms show "eliminar_cliente w
              = (Inr (), w\<lparr>entrada := r, impreso := impreso w @ [MsgNoEncontrados]\<rparr>)"
    by (simp add: eliminar_cliente_ninguno)
next
  assume "1 < length rs"
  with assms show "snd (eliminar_cliente w)
              = w\<lparr>entrada := r,
                  impreso := impreso w @ MsgMultiplesEliminar # lineas_candidatos rs\<rparr>"
    by (simp add: eliminar_cliente_varios)
next
  fix cliente_id cliente
  assume u: "rs = [(cliente_id, cliente)]"
  let ?w' = "snd (eliminar_cliente w)"
  note e = eliminar_cliente_uno [OF assms(1,2) assms(3) [unfolded u]]
  have a: "archivos ?w' = AList.delete (archivo_de cliente_id) (archivos w)"
    and c: "clientes ?w' = AList.delete cliente_id (clientes w)"
    by (simp_all add: e split: sum.splits)
  from buscar_clientes_miembro [OF assms(3) [unfolded u], of cliente_id cliente]
  have "cargar_cliente cliente_id w = Inr cliente" "py_bool cliente" by auto
  then show "path_exists (archivos w) (archivo_de cliente_id)"
    by (simp add: cargar_cliente_existe)
  show "archivos ?w' = AList.delete (archivo_de cliente_id) (archivos w)" by (rule a)
  show "\<not> path_exists (archivos ?w') (archivo_de cliente_id)"
    by (simp add: a path_exists_def delete_conv')
  show "clientes ?w' = AList.delete cliente_id (clientes w)" by (rule c)
  show "map_of (clientes ?w') cliente_id = None"
    by (simp add: c delete_conv')
  have k: "\<And>otro. cargar_cliente otro ?w'
             = (if otro = cliente_id then Inr JNull else cargar_cliente otro w)"
  proof -
    fix otro
    have "cargar_cliente otro ?w'
            = cargar_cliente otro (w\<lparr>archivos := AList.delete (archivo_de cliente_id) (archivos w)\<rparr>)"
      by (rule cargar_cliente_archivos) (simp add: a)
    then show "cargar_cliente otro ?w'
             = (if otro = cliente_id then Inr JNull else cargar_cliente otro w)"
      by (simp add: cargar_tras_borrar)
  qed
  from assms(3) have "carga_bien (listdir (archivos w)) w" by (rule buscar_clientes_carga_bien)
  then have "carga_bien (listdir (AList.delete (archivo_de cliente_id) (archivos w)))
           (w\<lparr>archivos := AList.delete (archivo_de cliente_id) (archivos w)\<rparr>)"
    by (rule carga_bien_tras_borrar)
  then have "carga_bien (listdir (AList.delete (archivo_de cliente_id) (archivos w))) ?w'"
    by (simp add: carga_bien_archivos [of ?w'
          "w\<lparr>archivos := AList.delete (archivo_de cliente_id) (archivos w)\<rparr>"] a)
  then have b: "carga_bien (listdir (archivos ?w')) ?w'" by (simp add: a)
  from k [of cliente_id] have "cargar_cliente cliente_id ?w' = Inr JNull" by simp
  with b show "buscar_clientes ''id'' cliente_id ?w' = Inr []"
    by (rule buscar_id_ausente)
  { fix otro assume "otro \<noteq> cliente_id"
    with k [of otro] show "cargar_cliente otro ?w' = cargar_cliente otro w" by simp }
  { fix v assume v: "py_getitem cliente ''numero_cliente'' = Inr v"
    show "fst (eliminar_cliente w) = Inr ()" by (simp add: e v)
    show "impreso ?w' = impreso w @ [MsgEliminado cliente_id v]" by (simp add: e v) }
qed

lemma buscar_borrar:
  "buscar_clientes ''id'' ''AB_20250602'' mundo_borrar = Inr [(''AB_20250602'', registro_ejemplo)]"
  by code_simp

lemma strip_ejemplos: "strip ''2'' = ''2''" "strip ''AB_20250602'' = ''AB_20250602''"
  "strip ''3'' = ''3''" "strip ''ana'' = ''ana''" "strip '' telefonia '' = ''telefonia''"
  by code_simp+

theorem eliminar_cliente_correcto_witness:
  "path_exists (archivos mundo_borrar) (archivo_de ''AB_20250602'')
   \<and> \<not> path_exists (archivos (snd (eliminar_cliente mundo_borrar))) (archivo_de ''AB_20250602'')
   \<and> clientes (snd (eliminar_cliente mundo_borrar)) = []
   \<and> buscar_clientes ''id'' ''AB_20250602'' (snd (eliminar_cliente mundo_borrar)) = Inr []
   \<and> fst (eliminar_cliente mundo_borrar) = Inr ()
   \<and> impreso (snd (eliminar_cliente mundo_borrar)) = [MsgEliminado ''AB_20250602'' (JStr ''C001'')]"
proof -
  have e: "entrada mundo_borrar = ''2'' # ''AB_20250602'' # []"
    by (simp add: mundo_borrar_def)
  have c: "criterio_de (strip ''2'') = Some ''id''"
    by (simp add: strip_ejemplos criterio_de_def)
  have b: "buscar_clientes ''id'' (strip ''AB_20250602'') mundo_borrar
             = Inr [(''AB_20250602'', registro_ejemplo)]"
    by (simp add: strip_ejemplos buscar_borrar)
  have n: "py_getitem registro_ejemplo ''numero_cliente'' = Inr (JStr ''C001'')"
    by (simp add: registro_ejemplo_def)
  have i: "impreso mundo_borrar = []" "clientes mundo_borrar = [(''AB_20250602'', registro_ejemplo)]"
    by (simp_all add: mundo_borrar_def mundo_corrupto_def mundo_ejemplo_def)
  from eliminar_cliente_correcto [OF e c b] n
  have "path_exists (archivos mundo_borrar) (archivo_de ''AB_20250602'')"
    and "\<not> path_exists (archivos (snd (eliminar_cliente mundo_borrar))) (archivo_de ''AB_20250602'')"
    and "clientes (snd (eliminar_cliente mundo_borrar))
           = AList.delete ''AB_20250602'' (clientes mundo_borrar)"
    and "buscar_clientes ''id'' ''AB_20250602'' (snd (eliminar_cliente mundo_borrar)) = Inr []"
    and "fst (eliminar_cliente mundo_borrar) = Inr ()"
    and "impreso (snd (eliminar_cliente mundo_borrar))
           = impreso mundo_borrar @ [MsgEliminado ''AB_20250602'' (JStr ''C001'')]"
    by blast+
  then show ?thesis by (simp add: i)
qed

section \<open>Update\<close>

lemma modificar_cliente_ninguno:
  assumes "entrada w = l1 # l2 # r" and "criterio_de (strip l1) = Some criterio"
    and "buscar_clientes criterio (strip l2) w = Inr []"
  shows "modificar_cliente w = (Inr (), w\<lparr>entrada := r, impreso := impreso w @ [MsgNoEncontrados]\<rparr>)"
  using assms by (simp add: modificar_cliente_def paso)

lemma modificar_cliente_varios:
  assumes "entrada w = l1 # l2 # r" and "criterio_de (strip l1) = Some criterio"
    and "buscar_clientes criterio (strip l2) w = Inr rs" and "1 < length rs"
  shows "modificar_cliente w =
           (fin_candidatos rs,
            w\<lparr>entrada := r, impreso := impreso w @ MsgMultiples # lineas_candidatos rs\<rparr>)"
proof -
  from assms(4) obtain a b cs where "rs = a # b # cs"
    by (cases rs; cases "tl rs") auto
  with assms(1-3) show ?thesis
    by (simp add: modificar_cliente_def paso imprimir_candidatos_eq split: prod.splits)
qed

lemma candidatos_con_numero:
  "\<forall>(cliente_id, cliente) \<in> set rs. \<exists>v. py_getitem cliente ''numero_cliente'' = Inr v \<Longrightarrow>
     fin_candidatos rs = Inr ()
     \<and> lineas_candidatos rs
         = map (\<lambda>(cliente_id, cliente). LineaCandidato cliente_id (campo cliente ''numero_cliente'')) rs"
  by (induction rs rule: lineas_candidatos.induct) (auto simp: campo_def)

lemma agregar_servicio_lista:
  assumes "py_getitem cliente ''servicios'' = Inr (JList xs)"
  shows "\<exists>cliente'. agregar_servicio cliente servicio = Inr cliente'
           \<and> py_getitem cliente' ''servicios'' = Inr (JList (xs @ [JStr servicio]))
           \<and> (\<forall>k. k \<noteq> ''servicios'' \<longrightarrow> py_getitem cliente' k = py_getitem cliente k)"
proof (cases cliente)
  case (JDict kvs)
  with assms have m: "map_of kvs ''servicios'' = Some (JList xs)"
    by (simp split: option.splits)
  let ?c = "JDict (AList.update ''servicios'' (JList (xs @ [JStr servicio])) kvs)"
  from JDict m have "agregar_servicio cliente servicio = Inr ?c" by simp
  moreover have "py_getitem ?c ''servicios'' = Inr (JList (xs @ [JStr servicio]))"
    by (simp add: update_conv')
  moreover from JDict have "\<forall>k. k \<noteq> ''servicios'' \<longrightarrow> py_getitem ?c k = py_getitem cliente k"
    by (simp add: update_conv')
  ultimately show ?thesis by blast
qed (use assms in simp_all)

lemma agregar_servicio_sin_lista:
  "py_getitem cliente ''servicios'' = Inl e \<Longrightarrow> agregar_servicio cliente servicio = Inl e"
  by (cases cliente) (auto split: option.splits)

lemma modificar_cliente_uno:
  assumes "entrada w = l1 # l2 # l3 # r" and "criterio_de (strip l1) = Some criterio"
    and "buscar_clientes criterio (strip l2) w = Inr [(cliente_id, cliente)]"
    and "strip l3 \<noteq> []" and "agregar_servicio cliente (strip l3) = Inr cliente'"
  shows "modificar_cliente w =
     (case obtener_campos cliente' [''nombre'', ''numero_cliente''] of
        Inl e \<Rightarrow>
          (Inl e, w\<lparr>entrada := r,
                     archivos := AList.update (archivo_de cliente_id) (Documento cliente') (archivos w),
                     impreso := impreso w @ [MsgGuardado cliente_id]\<rparr>)
      | Inr vs \<Rightarrow>
          (Inr (), w\<lparr>entrada := r,
                     archivos := AList.update (archivo_de cliente_id) (Documento cliente') (archivos w),
                     impreso := impreso w @ [MsgGuardado cliente_id,
                        MsgServicioAgregado (strip l3) cliente_id (vs ! 0) (vs ! 1)]\<rparr>))"
proof -
  from buscar_clientes_miembro [OF assms(3), of cliente_id cliente]
  have "cargar_cliente cliente_id w = Inr cliente" "py_bool cliente" by auto
  then have v: "CHR 0x00 \<notin> set cliente_id" "nombre_valido (archivo_de cliente_id)"
    by (simp_all add: cargar_cliente_existe)
  show ?thesis
    using v assms
    by (simp add: modificar_cliente_def paso guardar_cliente_eq split: sum.splits)
qed

lemma modificar_cliente_falla:
  assumes "entrada w = l1 # l2 # l3 # r" and "criterio_de (strip l1) = Some criterio"
    and "buscar_clientes criterio (strip l2) w = Inr [(cliente_id, cliente)]"
    and "strip l3 \<noteq> []" and "agregar_servicio cliente (strip l3) = Inl e"
  shows "modificar_cliente w = (Inl e, w\<lparr>entrada := r\<rparr>)"
  using assms by (simp add: modificar_cliente_def paso)

text \<open>
  C5, as amended. \<open>modificar_cliente\<close>, the criterion chosen and the value typed, the
  search having returned: with no match it reports that nothing was found and changes
  nothing else; with several matches it reports the ambiguity and changes nothing else,
  the lines after the report being the identifier and customer number of each
  candidate, in order, when each candidate has a customer number; with exactly one
  match and a service typed that is not empty after stripping, when the record holds a
  list of services, the record saved under the identifier is the record found with that
  one service added at the end of its list (the services it had before stay first, in
  their order; every other field is as it was), the save is reported, and the other
  records, the counter and the dictionary are unchanged; when the record holds no
  services at all, the exception of reading them passes to the caller and nothing is
  saved or printed.
\<close>

theorem modificar_cliente_correcto:
  assumes "entrada w = l1 # l2 # r" and "criterio_de (strip l1) = Some criterio"
    and "buscar_clientes criterio (strip l2) w = Inr rs"
  shows "(rs = [] \<longrightarrow>
            modificar_cliente w
              = (Inr (), w\<lparr>entrada := r, impreso := impreso w @ [MsgNoEncontrados]\<rparr>))
       \<and> (1 < length rs \<longrightarrow>
            snd (modificar_cliente w)
              = w\<lparr>entrada := r, impreso := impreso w @ MsgMultiples # lineas_candidatos rs\<rparr>
            \<and> ((\<forall>(cliente_id, cliente) \<in> set rs.
                   \<exists>v. py_getitem cliente ''numero_cliente'' = Inr v) \<longrightarrow>
                 fst (modificar_cliente w) = Inr ()
                 \<and> lineas_candidatos rs
                     = map (\<lambda>(cliente_id, cliente).
                              LineaCandidato cliente_id (campo cliente ''numero_cliente'')) rs))
       \<and> (\<forall>cliente_id cliente l3 r' xs.
            rs = [(cliente_id, cliente)] \<and> r = l3 # r' \<and> strip l3 \<noteq> []
            \<and> py_getitem cliente ''servicios'' = Inr (JList xs) \<longrightarrow>
              (\<exists>cliente'.
                 cargar_cliente cliente_id (snd (modificar_cliente w)) = Inr cliente'
                 \<and> py_getitem cliente' ''servicios'' = Inr (JList (xs @ [JStr (strip l3)]))
                 \<and> (\<forall>k. k \<noteq> ''servicios'' \<longrightarrow> py_getitem cliente' k = py_getitem cliente k)
                 \<and> archivos (snd (modificar_cliente w))
                     = AList.update (archivo_de cliente_id) (Documento cliente') (archivos w))
              \<and> (\<forall>otro. otro \<noteq> cliente_id \<longrightarrow>
                    cargar_cliente otro (snd (modificar_cliente w)) = cargar_cliente otro w)
              \<and> CONTADOR_CLIENTE (snd (modificar_cliente w)) = CONTADOR_CLIENTE w
              \<and> clientes (snd (modificar_cliente w)) = clientes w
              \<and> entrada (snd (modificar_cliente w)) = r'
              \<and> MsgGuardado cliente_id \<in> set (impreso (snd (modificar_cliente w))))
       \<and> (\<forall>cliente_id cliente l3 r' e.
            rs = [(cliente_id, cliente)] \<and> r = l3 # r' \<and> strip l3 \<noteq> []
            \<and> py_getitem cliente ''servicios'' = Inl e \<longrightarrow>
              modificar_cliente w = (Inl e, w\<lparr>entrada := r'\<rparr>))"
proof (intro conjI allI impI)
  assume "rs = []"
  with assms show "modificar_cliente w
              = (Inr (), w\<lparr>entrada := r, impreso := impreso w @ [MsgNoEncontrados]\<rparr>)"
    by (simp add: modificar_cliente_ninguno)
next
  assume "1 < length rs"
  with assms show "snd (modificar_cliente w)
              = w\<lparr>entrada := r, impreso := impreso w @ MsgMultiples # lineas_candidatos rs\<rparr>"
    by (simp add: modificar_cliente_varios)
next
  assume m: "1 < length rs"
    and n: "\<forall>(cliente_id, cliente) \<in> set rs. \<exists>v. py_getitem cliente ''numero_cliente'' = Inr v"
  from candidatos_con_numero [OF n] m assms
  show "fst (modificar_cliente w) = Inr ()"
    by (simp add: modificar_cliente_varios)
  from candidatos_con_numero [OF n]
  show "lineas_candidatos rs
          = map (\<lambda>(cliente_id, cliente).
                   LineaCandidato cliente_id (campo cliente ''numero_cliente'')) rs"
    by simp
next
  fix cliente_id cliente l3 r' e
  assume h: "rs = [(cliente_id, cliente)] \<and> r = l3 # r' \<and> strip l3 \<noteq> []
            \<and> py_getitem cliente ''servicios'' = Inl e"
  then have a: "agregar_servicio cliente (strip l3) = Inl e"
    by (simp add: agregar_servicio_sin_lista)
  from h assms have e: "entrada w = l1 # l2 # l3 # r'"
    and b: "buscar_clientes criterio (strip l2) w = Inr [(cliente_id, cliente)]"
    and t: "strip l3 \<noteq> []"
    by simp_all
  show "modificar_cliente w = (Inl e, w\<lparr>entrada := r'\<rparr>)"
    by (rule modificar_cliente_falla [OF e assms(2) b t a])
next
  fix cliente_id cliente l3 r' xs
  assume h: "rs = [(cliente_id, cliente)] \<and> r = l3 # r' \<and> strip l3 \<noteq> []
            \<and> py_getitem cliente ''servicios'' = Inr (JList xs)"
  let ?w' = "snd (modificar_cliente w)"
  from h agregar_servicio_lista [of cliente xs "strip l3"]
  obtain cliente' where a: "agregar_servicio cliente (strip l3) = Inr cliente'"
    and s: "py_getitem cliente' ''servicios'' = Inr (JList (xs @ [JStr (strip l3)]))"
    and o: "\<forall>k. k \<noteq> ''servicios'' \<longrightarrow> py_getitem cliente' k = py_getitem cliente k"
    by blast
  from h assms have e: "entrada w = l1 # l2 # l3 # r'"
    and b: "buscar_clientes criterio (strip l2) w = Inr [(cliente_id, cliente)]"
    and t: "strip l3 \<noteq> []"
    by simp_all
  note u = modificar_cliente_uno [OF e assms(2) b t a]
  from buscar_clientes_miembro [OF b, of cliente_id cliente]
  have "cargar_cliente cliente_id w = Inr cliente" "py_bool cliente" by auto
  then have v: "CHR 0x00 \<notin> set cliente_id" "nombre_valido (archivo_de cliente_id)"
    by (simp_all add: cargar_cliente_existe)
  have d: "archivos ?w' = AList.update (archivo_de cliente_id) (Documento cliente') (archivos w)"
    and c: "CONTADOR_CLIENTE ?w' = CONTADOR_CLIENTE w" "clientes ?w' = clientes w"
      "entrada ?w' = r'"
    and g: "MsgGuardado cliente_id \<in> set (impreso ?w')"
    by (simp_all add: u split: sum.splits)
  have k: "\<And>otro. cargar_cliente otro ?w'
             = (if otro = cliente_id then Inr cliente' else cargar_cliente otro w)"
  proof -
    fix otro
    have "cargar_cliente otro ?w'
            = cargar_cliente otro
                (w\<lparr>archivos := AList.update (archivo_de cliente_id) (Documento cliente') (archivos w)\<rparr>)"
      by (rule cargar_cliente_archivos) (simp add: d)
    with v show "cargar_cliente otro ?w'
             = (if otro = cliente_id then Inr cliente' else cargar_cliente otro w)"
      by (simp add: cargar_tras_escribir)
  qed
  from k [of cliente_id] have l: "cargar_cliente cliente_id ?w' = Inr cliente'" by simp
  from l s o d
  show "\<exists>cliente'.
          cargar_cliente cliente_id ?w' = Inr cliente'
          \<and> py_getitem cliente' ''servicios'' = Inr (JList (xs @ [JStr (strip l3)]))
          \<and> (\<forall>k. k \<noteq> ''servicios'' \<longrightarrow> py_getitem cliente' k = py_getitem cliente k)
          \<and> archivos ?w'
              = AList.update (archivo_de cliente_id) (Documento cliente') (archivos w)"
    by blast
  show "CONTADOR_CLIENTE ?w' = CONTADOR_CLIENTE w" "clientes ?w' = clientes w" "entrada ?w' = r'"
    by (rule c)+
  show "MsgGuardado cliente_id \<in> set (impreso ?w')" by (rule g)
  { fix otro assume "otro \<noteq> cliente_id"
    with k [of otro] show "cargar_cliente otro ?w' = cargar_cliente otro w" by simp }
qed

lemma buscar_modificar:
  "buscar_clientes ''nombre'' ''ana'' mundo_modificar = Inr [(''AB_20250602'', registro_ejemplo)]"
  by code_simp

lemma buscar_modificar_incompleto:
  "buscar_clientes ''id'' ''AB_20250602'' mundo_modificar_incompleto
     = Inr [(''AB_20250602'', JDict [(''apellido'', JStr ''Bello'')])]"
  by code_simp

lemma strip_tv: "strip ''tv'' = ''tv''"
  by code_simp

theorem modificar_cliente_correcto_witness:
  "py_getitem registro_ejemplo ''servicios'' = Inr (JList [JStr ''tv'', JStr ''internet''])
   \<and> (\<exists>cliente'.
        cargar_cliente ''AB_20250602'' (snd (modificar_cliente mundo_modificar)) = Inr cliente'
        \<and> py_getitem cliente' ''servicios''
            = Inr (JList [JStr ''tv'', JStr ''internet'', JStr ''telefonia''])
        \<and> py_getitem cliente' ''numero_cliente'' = Inr (JStr ''C001''))
   \<and> MsgGuardado ''AB_20250602'' \<in> set (impreso (snd (modificar_cliente mundo_modificar)))
   \<and> modificar_cliente mundo_modificar_incompleto
       = (Inl KeyError, mundo_modificar_incompleto\<lparr>entrada := []\<rparr>)"
proof -
  have e: "entrada mundo_modificar = ''3'' # ''ana'' # [ '' telefonia '']"
    by (simp add: mundo_modificar_def)
  have c: "criterio_de (strip ''3'') = Some ''nombre''"
    by (simp add: strip_ejemplos criterio_de_def)
  have b: "buscar_clientes ''nombre'' (strip ''ana'') mundo_modificar
             = Inr [(''AB_20250602'', registro_ejemplo)]"
    by (simp add: strip_ejemplos buscar_modificar)
  have s: "py_getitem registro_ejemplo ''servicios'' = Inr (JList [JStr ''tv'', JStr ''internet''])"
    and n: "py_getitem registro_ejemplo ''numero_cliente'' = Inr (JStr ''C001'')"
    by (simp_all add: registro_ejemplo_def)
  have h: "[(''AB_20250602'', registro_ejemplo)] = [(''AB_20250602'', registro_ejemplo)]
           \<and> [ '' telefonia ''] = '' telefonia '' # [] \<and> strip '' telefonia '' \<noteq> []
           \<and> py_getitem registro_ejemplo ''servicios'' = Inr (JList [JStr ''tv'', JStr ''internet''])"
    by (simp add: strip_ejemplos s)
  note t = modificar_cliente_correcto [OF e c b, THEN conjunct2, THEN conjunct2, THEN conjunct1,
      rule_format, OF h]
  from t obtain cliente' where
    0: "cargar_cliente ''AB_20250602'' (snd (modificar_cliente mundo_modificar)) = Inr cliente'"
    and 1: "py_getitem cliente' ''servicios''
       = Inr (JList ([JStr ''tv'', JStr ''internet''] @ [JStr (strip '' telefonia '')]))"
    and 2: "\<forall>k. k \<noteq> ''servicios'' \<longrightarrow> py_getitem cliente' k = py_getitem registro_ejemplo k"
    by blast
  from t have 3: "MsgGuardado ''AB_20250602'' \<in> set (impreso (snd (modificar_cliente mundo_modificar)))"
    by blast
  from 2 have 4: "py_getitem cliente' ''numero_cliente'' = Inr (JStr ''C001'')"
    by (simp add: n)
  from 1 have 5: "py_getitem cliente' ''servicios''
            = Inr (JList [JStr ''tv'', JStr ''internet'', JStr ''telefonia''])"
    by (simp add: strip_ejemplos)
  have e2: "entrada mundo_modificar_incompleto = ''2'' # ''AB_20250602'' # [''tv'']"
    by (simp add: mundo_modificar_incompleto_def)
  have c2: "criterio_de (strip ''2'') = Some ''id''"
    by (simp add: strip_ejemplos criterio_de_def)
  have b2: "buscar_clientes ''id'' (strip ''AB_20250602'') mundo_modificar_incompleto
             = Inr [(''AB_20250602'', JDict [(''apellido'', JStr ''Bello'')])]"
    by (simp add: strip_ejemplos buscar_modificar_incompleto)
  have h2: "[(''AB_20250602'', JDict [(''apellido'', JStr ''Bello'')])]
              = [(''AB_20250602'', JDict [(''apellido'', JStr ''Bello'')])]
           \<and> [''tv''] = ''tv'' # [] \<and> strip ''tv'' \<noteq> []
           \<and> py_getitem (JDict [(''apellido'', JStr ''Bello'')]) ''servicios'' = Inl KeyError"
    by (simp add: strip_tv)
  note t2 = modificar_cliente_correcto [OF e2 c2 b2, THEN conjunct2, THEN conjunct2,
      THEN conjunct2, rule_format, OF h2]
  from s 0 3 4 5 t2 show ?thesis by blast
qed

text \<open>
  C5 as stated, for every update that finds exactly one match and reads a service that
  is not empty, fails: the record found by identifier holds no list of services, the
  update raises \<open>KeyError\<close>, and the record file is as before, with no service in it.
\<close>

theorem modificar_cliente_contraejemplo:
  "buscar_clientes ''id'' ''AB_20250602'' mundo_modificar_incompleto
     = Inr [(''AB_20250602'', JDict [(''apellido'', JStr ''Bello'')])]
   \<and> fst (modificar_cliente mundo_modificar_incompleto) = Inl KeyError
   \<and> archivos (snd (modificar_cliente mundo_modificar_incompleto))
       = archivos mundo_modificar_incompleto
   \<and> impreso (snd (modificar_cliente mundo_modificar_incompleto)) = []
   \<and> cargar_cliente ''AB_20250602'' (snd (modificar_cliente mundo_modificar_incompleto))
       = Inr (JDict [(''apellido'', JStr ''Bello'')])"
proof -
  have m: "modificar_cliente mundo_modificar_incompleto
       = (Inl KeyError, mundo_modificar_incompleto\<lparr>entrada := []\<rparr>)"
    by code_simp
  have c: "cargar_cliente ''AB_20250602'' (mundo_modificar_incompleto\<lparr>entrada := []\<rparr>)
       = Inr (JDict [(''apellido'', JStr ''Bello'')])"
    by code_simp
  have i: "impreso mundo_modificar_incompleto = []"
    by (simp add: mundo_modificar_incompleto_def mundo_incompleto_def mundo_nuevo_def)
  from m c i show ?thesis by (simp add: buscar_modificar_incompleto)
qed

section \<open>One summary line for each record listed\<close>

text \<open>When no load raises and every record reached has the fields of the summary line,
  the listing prints exactly one line for each, in order, and ends normally.\<close>

lemma obtener_campos_campo:
  "obtener_campos cliente ks = Inr vs \<Longrightarrow> vs = map (campo cliente) ks"
proof (induction ks arbitrary: vs)
  case Nil
  then show ?case by simp
next
  case (Cons k ks)
  then show ?case by (auto simp: campo_def split: sum.splits)
qed

lemma lineas_resumen_completas:
  "\<forall>(cliente_id, cliente) \<in> set rs. \<exists>vs. obtener_campos cliente campos_resumen = Inr vs \<Longrightarrow>
     fin_resumen rs = Inr ()
     \<and> lineas_resumen rs
         = map (\<lambda>(cliente_id, cliente).
                  LineaResumen cliente_id (map (campo cliente) campos_resumen)) rs"
proof (induction rs rule: lineas_resumen.induct)
  case 1
  show ?case by simp
next
  case (2 cliente_id cliente resto)
  then obtain vs where v: "obtener_campos cliente campos_resumen = Inr vs" by auto
  from obtener_campos_campo [OF v] v 2 show ?case by simp
qed

lemma listar_clientes_una_linea:
  assumes "path_exists (archivos w) CONTADOR_FILE"
    and "carga_bien (listdir (archivos w)) w"
    and "\<forall>(cliente_id, cliente) \<in> set (cargados w).
           \<exists>vs. obtener_campos cliente campos_resumen = Inr vs"
  shows "listar_clientes w =
           (Inr (), w\<lparr>impreso := impreso w @
              map (\<lambda>(cliente_id, cliente).
                     LineaResumen cliente_id (map (campo cliente) campos_resumen)) (cargados w)\<rparr>)"
  using listar_clientes_con_contador [OF assms(1)] listar_cargados [OF assms(2)]
    lineas_resumen_completas [OF assms(3)]
  by (simp add: cargados_def)

section \<open>The counter never goes back\<close>








section \<open>The customer number generator\<close>













end
